theory Spec2Isabelle
  imports Complex_Main
begin

section \<open>JavaScript values used by the service\<close>

text \<open>
  Values that travel through the handlers untouched (request body fields, RPC parameters,
  RPC results, response bodies) are JSON values. A number is kept by its exact value; no
  arithmetic is done on it, only the test whether it is zero.
\<close>

datatype json =
    JNull
  | JBool bool
  | JNum rat
  | JStr string
  | JArr "json list"
  | JObj "(string \<times> json) list"

text \<open>
  JavaScript truthiness, as \<^verbatim>\<open>!x\<close> and \<^verbatim>\<open>x || y\<close> test it. A property that is
  absent reads as \<^verbatim>\<open>undefined\<close>, here \<open>None\<close>.
\<close>

fun truthy :: "json \<Rightarrow> bool" where
  "truthy JNull = False"
| "truthy (JBool b) = b"
| "truthy (JNum q) = (q \<noteq> 0)"
| "truthy (JStr s) = (s \<noteq> [])"
| "truthy (JArr xs) = True"
| "truthy (JObj kvs) = True"

definition truthy_opt :: "json option \<Rightarrow> bool" where
  "truthy_opt v = (case v of None \<Rightarrow> False | Some x \<Rightarrow> truthy x)"

definition truthy_str :: "string option \<Rightarrow> bool" where
  "truthy_str v = (case v of None \<Rightarrow> False | Some s \<Rightarrow> s \<noteq> [])"

section \<open>parseInt\<close>

text \<open>
  \<^verbatim>\<open>parseInt(string)\<close> with no radix, after ECMA-262: convert the argument to a string,
  strip leading white space, read a sign, read a \<^verbatim>\<open>0x\<close>/\<^verbatim>\<open>0X\<close> prefix (radix 16,
  otherwise radix 10), keep the longest prefix of digits of that radix, and return NaN when
  that prefix is empty; otherwise return the Number value of the integer the digits denote,
  with its sign. Characters are code units below 256.
\<close>

definition is_white_space :: "char \<Rightarrow> bool" where
  "is_white_space c = (of_char c \<in> {9, 10, 11, 12, 13, 32, 160 :: nat})"

definition digit_value :: "char \<Rightarrow> nat option" where
  "digit_value c =
     (let n = (of_char c :: nat) in
      if 48 \<le> n \<and> n \<le> 57 then Some (n - 48)
      else if 97 \<le> n \<and> n \<le> 122 then Some (n - 87)
      else if 65 \<le> n \<and> n \<le> 90 then Some (n - 55)
      else None)"

definition is_radix_digit :: "nat \<Rightarrow> char \<Rightarrow> bool" where
  "is_radix_digit R c = (case digit_value c of None \<Rightarrow> False | Some d \<Rightarrow> d < R)"

definition digits_value :: "nat \<Rightarrow> string \<Rightarrow> int" where
  "digits_value R Z =
     foldl (\<lambda>acc c. acc * int R + (case digit_value c of None \<Rightarrow> 0 | Some d \<Rightarrow> int d)) 0 Z"

definition ToString :: "string option \<Rightarrow> string" where
  "ToString v = (case v of None \<Rightarrow> ''undefined'' | Some s \<Rightarrow> s)"

text \<open>
  The steps of \<^verbatim>\<open>parseInt\<close> up to the integer: \<open>None\<close> when there is no digit, otherwise
  the signed integer the digits denote, of any size.
\<close>

definition parseInt_integer :: "string option \<Rightarrow> int option" where
  "parseInt_integer v =
     (let inputString = ToString v;
          S = dropWhile is_white_space inputString;
          sign = (if S \<noteq> [] \<and> hd S = CHR ''-'' then - 1 else 1 :: int);
          S1 = (if S \<noteq> [] \<and> (hd S = CHR ''+'' \<or> hd S = CHR ''-'') then tl S else S);
          stripped = (2 \<le> length S1 \<and> (take 2 S1 = ''0x'' \<or> take 2 S1 = ''0X''));
          R = (if stripped then 16 else 10 :: nat);
          S2 = (if stripped then drop 2 S1 else S1);
          Z = takeWhile (is_radix_digit R) S2
      in if Z = [] then None else Some (sign * digits_value R Z))"

text \<open>
  The Numbers that \<^verbatim>\<open>parseInt\<close> can return: NaN, the two infinities, and the doubles
  that are integers. (The sign of a zero is not kept: minus zero is falsy like zero, and is
  written \<^verbatim>\<open>0\<close> in JSON.)
\<close>

datatype number = NaN | Finite int | PlusInfinity | MinusInfinity

text \<open>
  The Number value of an integer: the nearest double, ties to the even significand. An
  integer of magnitude up to \<open>2^53 = 9007199254740992\<close> is a double. A larger magnitude
  \<open>m\<close> keeps its 53 leading bits, rounded on the \<open>e\<close> bits that are dropped; a result of
  \<open>2^1024\<close> or more is beyond the doubles and becomes an infinity. (ECMA-262 lets an engine
  ignore decimal digits after the twentieth; Node's engine rounds the exact integer.)
\<close>

function bit_length :: "int \<Rightarrow> nat" where
  "bit_length n = (if n \<le> 0 then 0 else Suc (bit_length (n div 2)))"
  by pat_completeness auto
termination
  by (relation "measure nat") auto

definition round_to_double :: "int \<Rightarrow> int option" where
  "round_to_double m =
     (if m \<le> 9007199254740992 then Some m
      else
        let e = bit_length m - 53;
            q = m div 2 ^ e;
            r = m mod 2 ^ e;
            q' = (if 2 ^ (e - 1) < r \<or> (r = 2 ^ (e - 1) \<and> odd q) then q + 1 else q)
        in if 2 ^ 1024 \<le> q' * 2 ^ e then None else Some (q' * 2 ^ e))"

definition Number_of_integer :: "int \<Rightarrow> number" where
  "Number_of_integer i =
     (case round_to_double \<bar>i\<bar> of
        Some m \<Rightarrow> Finite (if i < 0 then - m else m)
      | None \<Rightarrow> if i < 0 then MinusInfinity else PlusInfinity)"

definition parseInt :: "string option \<Rightarrow> number" where
  "parseInt v =
     (case parseInt_integer v of None \<Rightarrow> NaN | Some i \<Rightarrow> Number_of_integer i)"

text \<open>\<^verbatim>\<open>parseInt(x) || d\<close>: NaN and zero (of either sign) are falsy.\<close>

definition or_default :: "number \<Rightarrow> int \<Rightarrow> number" where
  "or_default p d = (if p = NaN \<or> p = Finite 0 then Finite d else p)"

text \<open>\<^verbatim>\<open>isNaN(x)\<close> on a result of parseInt.\<close>

definition isNaN :: "number \<Rightarrow> bool" where
  "isNaN p = (p = NaN)"

text \<open>
  A Number as it leaves the process in a request envelope or a response body, both written
  with \<^verbatim>\<open>JSON.stringify\<close>: a finite Number as itself, NaN and the infinities as
  \<^verbatim>\<open>null\<close>.
\<close>

fun num_json :: "number \<Rightarrow> json" where
  "num_json (Finite n) = JNum (of_int n)"
| "num_json NaN = JNull"
| "num_json PlusInfinity = JNull"
| "num_json MinusInfinity = JNull"

section \<open>The RPC client (class ZCashService)\<close>

text \<open>The request and response envelopes of \<^verbatim>\<open>zcash.types.ts\<close>.\<close>

record ZCashRPCRequest =
  jsonrpc :: string
  id' :: int
  method' :: string
  params :: "json list"

record rpc_error =
  code :: int
  message :: string

record ZCashRPCResponse =
  result :: json
  error :: "rpc_error option"
  response_id :: int

text \<open>
  What a \<^verbatim>\<open>catch\<close> clause of the client can receive: an error object with a message
  and, when the HTTP client got an answer with a failure status, a \<^verbatim>\<open>response\<close>. Of
  the response only \<^verbatim>\<open>response.data?.error?.message\<close> is read: \<open>Some None\<close> is a
  response where that chain ends in \<^verbatim>\<open>undefined\<close>. \<open>Error m\<close> is \<^verbatim>\<open>new Error(m)\<close>,
  which has no \<^verbatim>\<open>response\<close> property.
\<close>

record thrown =
  err_message :: string
  err_response :: "string option option"

definition Error :: "string \<Rightarrow> thrown" where
  "Error m = \<lparr>err_message = m, err_response = None\<rparr>"

text \<open>The outcome of \<^verbatim>\<open>await this.client.post('', request)\<close>.\<close>

datatype post_outcome = Resolved ZCashRPCResponse | Rejected thrown

type_synonym transport = "ZCashRPCRequest \<Rightarrow> post_outcome"

text \<open>
  The state of the service object: the field \<^verbatim>\<open>requestId\<close>, and the requests handed
  to \<^verbatim>\<open>client.post\<close> so far, oldest first, each as the HTTP client writes it out.
\<close>

record service =
  requestId :: int
  posted :: "ZCashRPCRequest list"

definition new_service :: service where
  "new_service = \<lparr>requestId = 0, posted = []\<rparr>"

text \<open>
  \<^verbatim>\<open>++this.requestId\<close>. The field is a Number, a double: starting from 0 it takes the
  values 0, 1, 2, ... exactly up to \<open>2^53 = 9007199254740992\<close>, and there adding 1
  rounds back to \<open>2^53\<close>.
\<close>

definition js_incr :: "int \<Rightarrow> int" where
  "js_incr n = (if n < 9007199254740992 then n + 1 else n)"

text \<open>
  The decimal numeral of an integer, which is what a template literal inserts for a Number
  that is an integer of magnitude below \<open>10^21\<close>, as JSON-RPC error codes are.
\<close>

fun show_nat :: "nat \<Rightarrow> string" where
  "show_nat n =
     (if n < 10 then [char_of (48 + n)]
      else show_nat (n div 10) @ [char_of (48 + n mod 10)])"

definition show_int :: "int \<Rightarrow> string" where
  "show_int i = (if i < 0 then CHR ''-'' # show_nat (nat (- i)) else show_nat (nat i))"

text \<open>
  The \<^verbatim>\<open>catch (error: any)\<close> clause of \<^verbatim>\<open>rpcCall\<close>: with a response the message of
  the remote error, or else of the error itself (\<^verbatim>\<open>||\<close> skips an empty message), under
  the prefix \<^verbatim>\<open>ZCash RPC Error\<close>; without a response the prefix \<^verbatim>\<open>Network Error\<close>.
\<close>

definition rpcCall_catch :: "thrown \<Rightarrow> thrown" where
  "rpcCall_catch e =
     (case err_response e of
        Some m \<Rightarrow>
          Error (''ZCash RPC Error: '' @ (if truthy_str m then the m else err_message e))
      | None \<Rightarrow> Error (''Network Error: '' @ err_message e))"

text \<open>
  \<^verbatim>\<open>rpcCall(method, params)\<close>. The request is built and the counter incremented before
  the \<^verbatim>\<open>try\<close>; the \<^verbatim>\<open>try\<close> block holds the post, the test of the error field and
  its \<^verbatim>\<open>throw\<close>, so whatever is thrown there, by the post or by the test, goes through
  the \<^verbatim>\<open>catch\<close> clause.
\<close>

definition rpcCall_try :: "transport \<Rightarrow> ZCashRPCRequest \<Rightarrow> thrown + json" where
  "rpcCall_try post request =
     (case post request of
        Rejected e \<Rightarrow> Inl e
      | Resolved response \<Rightarrow>
          (case error response of
             Some er \<Rightarrow>
               Inl (Error (''RPC Error: '' @ message er @ '' (Code: '' @ show_int (code er) @ '')''))
           | None \<Rightarrow> Inr (result response)))"

definition rpcCall :: "transport \<Rightarrow> string \<Rightarrow> json list \<Rightarrow> service \<Rightarrow> (thrown + json) \<times> service" where
  "rpcCall post m ps s =
     (let n = js_incr (requestId s);
          request = \<lparr>jsonrpc = ''2.0'', id' = n, method' = m, params = ps\<rparr>;
          s' = s\<lparr>requestId := n, posted := posted s @ [request]\<rparr>
      in (case rpcCall_try post request of
            Inl e \<Rightarrow> (Inl (rpcCall_catch e), s')
          | Inr r \<Rightarrow> (Inr r, s')))"

text \<open>
  The methods of the service: each is one \<^verbatim>\<open>rpcCall\<close> with the method name of the node
  and the arguments in the node's order. The controller passes every argument but the
  comment of \<^verbatim>\<open>sendToAddress\<close>, so only that default parameter value is ever used.
\<close>

type_synonym rpc_result = "(thrown + json) \<times> service"

definition ZCashService_getBlockchainInfo :: "transport \<Rightarrow> service \<Rightarrow> rpc_result" where
  "ZCashService_getBlockchainInfo post s =
     rpcCall post ''getblockchaininfo'' [] s"

definition ZCashService_getWalletInfo :: "transport \<Rightarrow> service \<Rightarrow> rpc_result" where
  "ZCashService_getWalletInfo post s =
     rpcCall post ''getwalletinfo'' [] s"

definition ZCashService_getBalance :: "transport \<Rightarrow> number \<Rightarrow> service \<Rightarrow> rpc_result" where
  "ZCashService_getBalance post minConfirmations s =
     rpcCall post ''getbalance'' [JStr ''*'', num_json minConfirmations] s"

definition ZCashService_getNewAddress :: "transport \<Rightarrow> json \<Rightarrow> service \<Rightarrow> rpc_result" where
  "ZCashService_getNewAddress post account s =
     rpcCall post ''getnewaddress'' [account] s"

definition ZCashService_getTransaction :: "transport \<Rightarrow> string \<Rightarrow> service \<Rightarrow> rpc_result" where
  "ZCashService_getTransaction post txid s =
     rpcCall post ''gettransaction'' [JStr txid] s"

definition ZCashService_listTransactions :: "transport \<Rightarrow> number \<Rightarrow> number \<Rightarrow> service \<Rightarrow> rpc_result" where
  "ZCashService_listTransactions post count skip s =
     rpcCall post ''listtransactions'' [JStr ''*'', num_json count, num_json skip] s"

text \<open>
  \<^verbatim>\<open>sendToAddress(address, amount, comment = '')\<close>: the address and the amount come
  from the request body as they are; the default replaces a comment that is
  \<^verbatim>\<open>undefined\<close>, and nothing else.
\<close>

definition ZCashService_sendToAddress :: "transport \<Rightarrow> json \<Rightarrow> json \<Rightarrow> json option \<Rightarrow> service \<Rightarrow> rpc_result" where
  "ZCashService_sendToAddress post address amount comment s =
     rpcCall post ''sendtoaddress''
       [address, amount, (case comment of None \<Rightarrow> JStr '''' | Some c \<Rightarrow> c)] s"

definition ZCashService_validateAddress :: "transport \<Rightarrow> string \<Rightarrow> service \<Rightarrow> rpc_result" where
  "ZCashService_validateAddress post address s =
     rpcCall post ''validateaddress'' [JStr address] s"

definition ZCashService_getBlock :: "transport \<Rightarrow> string \<Rightarrow> number \<Rightarrow> service \<Rightarrow> rpc_result" where
  "ZCashService_getBlock post blockhash verbosity s =
     rpcCall post ''getblock'' [JStr blockhash, num_json verbosity] s"

definition ZCashService_getBlockCount :: "transport \<Rightarrow> service \<Rightarrow> rpc_result" where
  "ZCashService_getBlockCount post s =
     rpcCall post ''getblockcount'' [] s"

definition ZCashService_getBlockHash :: "transport \<Rightarrow> number \<Rightarrow> service \<Rightarrow> rpc_result" where
  "ZCashService_getBlockHash post height s =
     rpcCall post ''getblockhash'' [num_json height] s"

definition ZCashService_getNetworkInfo :: "transport \<Rightarrow> service \<Rightarrow> rpc_result" where
  "ZCashService_getNetworkInfo post s =
     rpcCall post ''getnetworkinfo'' [] s"

definition ZCashService_getMiningInfo :: "transport \<Rightarrow> service \<Rightarrow> rpc_result" where
  "ZCashService_getMiningInfo post s =
     rpcCall post ''getmininginfo'' [] s"

definition ZCashService_listUnspent :: "transport \<Rightarrow> number \<Rightarrow> number \<Rightarrow> service \<Rightarrow> rpc_result" where
  "ZCashService_listUnspent post minConfirmations maxConfirmations s =
     rpcCall post ''listunspent'' [num_json minConfirmations, num_json maxConfirmations] s"

definition ZCashService_getRawTransaction :: "transport \<Rightarrow> string \<Rightarrow> bool \<Rightarrow> service \<Rightarrow> rpc_result" where
  "ZCashService_getRawTransaction post txid verbose s =
     rpcCall post ''getrawtransaction'' [JStr txid, JNum (if verbose then 1 else 0)] s"

definition ZCashService_estimateFee :: "transport \<Rightarrow> number \<Rightarrow> service \<Rightarrow> rpc_result" where
  "ZCashService_estimateFee post nblocks s =
     rpcCall post ''estimatefee'' [num_json nblocks] s"

definition ZCashService_getConnectionCount :: "transport \<Rightarrow> service \<Rightarrow> rpc_result" where
  "ZCashService_getConnectionCount post s =
     rpcCall post ''getconnectioncount'' [] s"

section \<open>The request handlers (class ZCashController)\<close>

text \<open>
  Of an Express request the handlers read path parameters and query parameters, which they
  take to be strings when present (the source casts them so), and fields of the parsed JSON
  body, which is an object.
\<close>

record request =
  path_params :: "string \<rightharpoonup> string"
  query :: "string \<rightharpoonup> string"
  body :: "string \<rightharpoonup> json"

text \<open>
  What a handler does with the response: \<^verbatim>\<open>res.status(n).json(b)\<close> (status 200 when
  no status is set), or \<^verbatim>\<open>next(error)\<close>, which hands the error to the error-reporting
  path outside the controller.
\<close>

datatype reply = Json nat json | Next thrown

type_synonym handler = "transport \<Rightarrow> request \<Rightarrow> service \<Rightarrow> reply \<times> service"

definition success_body :: "json \<Rightarrow> json" where
  "success_body d = JObj [(''success'', JBool True), (''data'', d)]"

definition failure_body :: "string \<Rightarrow> json" where
  "failure_body msg = JObj [(''success'', JBool False), (''error'', JStr msg)]"

text \<open>
  The tail every handler shares: \<^verbatim>\<open>res.json({success: true, data: ...})\<close> with the
  awaited result, inside \<^verbatim>\<open>try\<close>, and \<^verbatim>\<open>next(error)\<close> in \<^verbatim>\<open>catch\<close>.
\<close>

definition respond :: "(json \<Rightarrow> json) \<Rightarrow> rpc_result \<Rightarrow> reply \<times> service" where
  "respond shape out =
     (case fst out of
        Inl e \<Rightarrow> (Next e, snd out)
      | Inr d \<Rightarrow> (Json 200 (success_body (shape d)), snd out))"

definition ZCashController_getBlockchainInfo :: handler where
  "ZCashController_getBlockchainInfo post req s =
     respond (\<lambda>data. data) (ZCashService_getBlockchainInfo post s)"

definition ZCashController_getWalletInfo :: handler where
  "ZCashController_getWalletInfo post req s =
     respond (\<lambda>data. data) (ZCashService_getWalletInfo post s)"

definition ZCashController_getBalance :: handler where
  "ZCashController_getBalance post req s =
     (let minConfirmations = or_default (parseInt (query req ''minConfirmations'')) 1
      in respond
           (\<lambda>balance. JObj [(''balance'', balance),
                             (''minConfirmations'', num_json minConfirmations)])
           (ZCashService_getBalance post minConfirmations s))"

text \<open>\<^verbatim>\<open>(req.body.account as string) || ''\<close>: the cast does nothing at run time.\<close>

definition ZCashController_getNewAddress :: handler where
  "ZCashController_getNewAddress post req s =
     (let account = (if truthy_opt (body req ''account'') then the (body req ''account'')
                     else JStr '''')
      in respond (\<lambda>address. JObj [(''address'', address)])
           (ZCashService_getNewAddress post account s))"

definition ZCashController_getTransaction :: handler where
  "ZCashController_getTransaction post req s =
     (let txid = path_params req ''txid''
      in if \<not> truthy_str txid
         then (Json 400 (failure_body ''Transaction ID is required''), s)
         else respond (\<lambda>transaction. transaction)
                (ZCashService_getTransaction post (the txid) s))"

definition ZCashController_listTransactions :: handler where
  "ZCashController_listTransactions post req s =
     (let count = or_default (parseInt (query req ''count'')) 10;
          skip = or_default (parseInt (query req ''skip'')) 0
      in respond (\<lambda>transactions. transactions)
           (ZCashService_listTransactions post count skip s))"

definition ZCashController_sendToAddress :: handler where
  "ZCashController_sendToAddress post req s =
     (let address = body req ''address'';
          amount = body req ''amount'';
          comment = body req ''comment''
      in if \<not> truthy_opt address \<or> \<not> truthy_opt amount
         then (Json 400 (failure_body ''Address and amount are required''), s)
         else respond (\<lambda>txid. JObj [(''txid'', txid)])
                (ZCashService_sendToAddress post (the address) (the amount) comment s))"

definition ZCashController_validateAddress :: handler where
  "ZCashController_validateAddress post req s =
     (let address = path_params req ''address''
      in if \<not> truthy_str address
         then (Json 400 (failure_body ''Address is required''), s)
         else respond (\<lambda>validation. validation)
                (ZCashService_validateAddress post (the address) s))"

definition ZCashController_getBlock :: handler where
  "ZCashController_getBlock post req s =
     (let blockhash = path_params req ''blockhash'';
          verbosity = or_default (parseInt (query req ''verbosity'')) 1
      in if \<not> truthy_str blockhash
         then (Json 400 (failure_body ''Block hash is required''), s)
         else respond (\<lambda>block. block)
                (ZCashService_getBlock post (the blockhash) verbosity s))"

definition ZCashController_getBlockCount :: handler where
  "ZCashController_getBlockCount post req s =
     respond (\<lambda>blockCount. JObj [(''blockCount'', blockCount)])
       (ZCashService_getBlockCount post s)"

definition ZCashController_getBlockHash :: handler where
  "ZCashController_getBlockHash post req s =
     (let height = parseInt (path_params req ''height'')
      in if isNaN height
         then (Json 400 (failure_body ''Valid block height is required''), s)
         else respond
                (\<lambda>blockhash. JObj [(''height'', num_json height), (''blockhash'', blockhash)])
                (ZCashService_getBlockHash post height s))"

definition ZCashController_getNetworkInfo :: handler where
  "ZCashController_getNetworkInfo post req s =
     respond (\<lambda>networkInfo. networkInfo) (ZCashService_getNetworkInfo post s)"

definition ZCashController_getMiningInfo :: handler where
  "ZCashController_getMiningInfo post req s =
     respond (\<lambda>miningInfo. miningInfo) (ZCashService_getMiningInfo post s)"

definition ZCashController_listUnspent :: handler where
  "ZCashController_listUnspent post req s =
     (let minConfirmations = or_default (parseInt (query req ''minConfirmations'')) 1;
          maxConfirmations = or_default (parseInt (query req ''maxConfirmations'')) 9999999
      in respond (\<lambda>unspent. unspent)
           (ZCashService_listUnspent post minConfirmations maxConfirmations s))"

definition ZCashController_getRawTransaction :: handler where
  "ZCashController_getRawTransaction post req s =
     (let txid = path_params req ''txid'';
          verbose = (query req ''verbose'' = Some ''true'')
      in if \<not> truthy_str txid
         then (Json 400 (failure_body ''Transaction ID is required''), s)
         else respond (\<lambda>rawTx. rawTx)
                (ZCashService_getRawTransaction post (the txid) verbose s))"

definition ZCashController_estimateFee :: handler where
  "ZCashController_estimateFee post req s =
     (let nblocks = or_default (parseInt (query req ''nblocks'')) 6
      in respond (\<lambda>fee. JObj [(''fee'', fee), (''nblocks'', num_json nblocks)])
           (ZCashService_estimateFee post nblocks s))"

definition ZCashController_getConnectionCount :: handler where
  "ZCashController_getConnectionCount post req s =
     respond (\<lambda>connections. JObj [(''connections'', connections)])
       (ZCashService_getConnectionCount post s)"

section \<open>Runs and sample inputs\<close>

text \<open>
  A run of the process as far as the client is concerned: the calls to \<^verbatim>\<open>rpcCall\<close>, in
  the order they are made, each with its method and its parameters.
\<close>

fun calls :: "transport \<Rightarrow> (string \<times> json list) list \<Rightarrow> service \<Rightarrow> service" where
  "calls post [] s = s"
| "calls post (c # cs) s = calls post cs (snd (rpcCall post (fst c) (snd c) s))"

text \<open>
  The ids of the requests posted so far are strictly increasing and none is above the counter.
\<close>

definition ids_ok :: "service \<Rightarrow> bool" where
  "ids_ok s =
     (sorted_wrt (<) (map id' (posted s)) \<and> (\<forall>rq \<in> set (posted s). id' rq \<le> requestId s))"

text \<open>The service once \<^verbatim>\<open>requestId\<close> has reached \<open>2^53\<close>.\<close>

definition saturated_service :: service where
  "saturated_service = \<lparr>requestId = 9007199254740992, posted = []\<rparr>"

text \<open>
  Three remote ends: one that refuses the connection, one that answers every request with a
  JSON-RPC error, and one whose connection fails with a message that reads like an RPC error.
\<close>

definition node_down :: transport where
  "node_down request = Rejected (Error ''connect ECONNREFUSED 127.0.0.1:8232'')"

definition node_rejects :: transport where
  "node_rejects request =
     Resolved \<lparr>result = JNull,
               error = Some \<lparr>code = - 5, message = ''Invalid address''\<rparr>,
               response_id = id' request\<rparr>"

definition transport_fails_with_rpc_text :: transport where
  "transport_fails_with_rpc_text request =
     Rejected (Error ''RPC Error: Invalid address (Code: -5)'')"

text \<open>
  A node that answers every request with a result, here a record of the call it received.
\<close>

definition echo :: "string \<Rightarrow> json list \<Rightarrow> json" where
  "echo m ps = JObj [(''method'', JStr m), (''params'', JArr ps)]"

definition node_echo :: transport where
  "node_echo request =
     Resolved \<lparr>result = echo (method' request) (params request),
               error = None,
               response_id = id' request\<rparr>"

text \<open>Requests: one with no parameter at all, and a send with an empty address and amount 0.\<close>

definition empty_request :: request where
  "empty_request = \<lparr>path_params = Map.empty, query = Map.empty, body = Map.empty\<rparr>"

definition send_nothing :: request where
  "send_nothing =
     empty_request\<lparr>body := [''address'' \<mapsto> JStr '''', ''amount'' \<mapsto> JNum 0]\<rparr>"

text \<open>
  A request that passes every presence check: path parameters for the endpoints that have
  one, and a send of 0.001 to an address.
\<close>

definition full_request :: request where
  "full_request =
     \<lparr>path_params = [''txid'' \<mapsto> ''ab12'', ''address'' \<mapsto> ''t1abc'',
                      ''blockhash'' \<mapsto> ''00ff'', ''height'' \<mapsto> ''12''],
      query = Map.empty,
      body = [''address'' \<mapsto> JStr ''t1abc'', ''amount'' \<mapsto> JNum (1 / 1000)]\<rparr>"

text \<open>The request a call posts: the envelope with the next id.\<close>

definition envelope :: "service \<Rightarrow> string \<Rightarrow> json list \<Rightarrow> ZCashRPCRequest" where
  "envelope s m ps = \<lparr>jsonrpc = ''2.0'', id' = js_incr (requestId s), method' = m, params = ps\<rparr>"

text \<open>Requests for a block hash at height \<^verbatim>\<open>abc\<close>, and for a raw transaction.\<close>

definition height_abc :: request where
  "height_abc = empty_request\<lparr>path_params := [''height'' \<mapsto> ''abc'']\<rparr>"

definition raw_request :: "string option \<Rightarrow> request" where
  "raw_request verbose =
     empty_request\<lparr>path_params := [''txid'' \<mapsto> ''ab12''],
                   query := (\<lambda>k. if k = ''verbose'' then verbose else None)\<rparr>"

text \<open>
  Requests for a block hash at a height one above \<open>2^53\<close>, and at a height of 310 digits.
\<close>

definition height_beyond_2_53 :: request where
  "height_beyond_2_53 = empty_request\<lparr>path_params := [''height'' \<mapsto> ''9007199254740993'']\<rparr>"

definition height_310_digits :: request where
  "height_310_digits =
     empty_request\<lparr>path_params := [''height'' \<mapsto> replicate 310 CHR ''9'']\<rparr>"

text \<open>
  The success path of a handler \<open>H\<close>, as a statement about one run of it: if the node
  answers the request for method \<open>m\<close> with parameters \<open>ps\<close> and the next id with a
  response whose error field is null, then the handler posts exactly that request and
  replies with status 200 and the body \<^verbatim>\<open>{success: true, data: d}\<close>.
\<close>

abbreviation success_path ::
  "handler \<Rightarrow> transport \<Rightarrow> request \<Rightarrow> service \<Rightarrow> string \<Rightarrow> json list \<Rightarrow> ZCashRPCResponse \<Rightarrow> json \<Rightarrow> bool" where
  "success_path H post req s m ps response d \<equiv>
     (post (envelope s m ps) = Resolved response \<and> error response = None \<longrightarrow>
      H post req s =
        (Json 200 (JObj [(''success'', JBool True), (''data'', d)]),
         s\<lparr>requestId := js_incr (requestId s), posted := posted s @ [envelope s m ps]\<rparr>))"

text \<open>The request \<open>req\<close> with the query parameter \<open>k\<close> set to \<open>v\<close>.\<close>

definition with_query :: "request \<Rightarrow> string \<Rightarrow> string \<Rightarrow> request" where
  "with_query req k v = req\<lparr>query := (query req)(k \<mapsto> v)\<rparr>"

text \<open>
  The request that passes every presence check, with each of the six optional numeric query
  parameters set to the same string.
\<close>

definition numeric_params :: "string list" where
  "numeric_params =
     [''minConfirmations'', ''maxConfirmations'', ''count'', ''skip'', ''nblocks'',
      ''verbosity'']"

definition all_numeric :: "string \<Rightarrow> request" where
  "all_numeric v =
     full_request\<lparr>query := (\<lambda>k. if k \<in> set numeric_params then Some v else None)\<rparr>"

section \<open>Properties of the RPC client\<close>

lemma rpcCall_state:
  "snd (rpcCall post m ps s) =
     s\<lparr>requestId := js_incr (requestId s),
       posted := posted s @
         [\<lparr>jsonrpc = ''2.0'', id' = js_incr (requestId s), method' = m, params = ps\<rparr>]\<rparr>"
  by (simp add: rpcCall_def Let_def split: sum.splits)

lemma rpcCall_result:
  "fst (rpcCall post m ps s) =
     (case rpcCall_try post
             \<lparr>jsonrpc = ''2.0'', id' = js_incr (requestId s), method' = m, params = ps\<rparr> of
        Inl e \<Rightarrow> Inl (rpcCall_catch e)
      | Inr r \<Rightarrow> Inr r)"
  by (simp add: rpcCall_def Let_def split: sum.splits)

lemma rpcCall_requestId: "requestId (snd (rpcCall post m ps s)) = js_incr (requestId s)"
  by (simp add: rpcCall_state)

lemma rpcCall_posted:
  "posted (snd (rpcCall post m ps s)) =
     posted s @ [\<lparr>jsonrpc = ''2.0'', id' = js_incr (requestId s), method' = m, params = ps\<rparr>]"
  by (simp add: rpcCall_state)

subsection \<open>Failure kinds\<close>

lemma show_int_minus_5: "show_int (- 5) = ''-5''"
  by code_simp

text \<open>
  A transport failure without a response surfaces as \<^verbatim>\<open>Network Error: <message>\<close>.
\<close>

lemma rpcCall_transport_failure:
  assumes "post \<lparr>jsonrpc = ''2.0'', id' = js_incr (requestId s), method' = m, params = ps\<rparr>
             = Rejected e"
    and "err_response e = None"
  shows "fst (rpcCall post m ps s) = Inl (Error (''Network Error: '' @ err_message e))"
  using assms by (simp add: rpcCall_result rpcCall_try_def rpcCall_catch_def)

text \<open>
  A failure that carries a response (the HTTP client got an answer with a failure status)
  surfaces as \<^verbatim>\<open>ZCash RPC Error: <message>\<close>, with the message of the remote error
  when the answer has a non-empty one and the message of the failure otherwise; the remote
  code is not part of it.
\<close>

lemma rpcCall_http_error:
  assumes "post \<lparr>jsonrpc = ''2.0'', id' = js_incr (requestId s), method' = m, params = ps\<rparr>
             = Rejected e"
    and "err_response e = Some remote"
  shows "fst (rpcCall post m ps s) =
     Inl (Error (''ZCash RPC Error: '' @
                 (case remote of None \<Rightarrow> err_message e
                  | Some msg \<Rightarrow> if msg = [] then err_message e else msg)))"
  using assms
  by (simp add: rpcCall_result rpcCall_try_def rpcCall_catch_def truthy_str_def
      split: option.splits)

text \<open>
  A response with an error field makes the \<^verbatim>\<open>try\<close> block throw
  \<^verbatim>\<open>RPC Error: <message> (Code: <code>)\<close>; the \<^verbatim>\<open>catch\<close> clause of the same
  \<^verbatim>\<open>try\<close> receives it, finds no \<^verbatim>\<open>response\<close> on it and throws a
  \<^verbatim>\<open>Network Error\<close> around it.
\<close>

lemma rpcCall_remote_error:
  assumes "post \<lparr>jsonrpc = ''2.0'', id' = js_incr (requestId s), method' = m, params = ps\<rparr>
             = Resolved response"
    and "error response = Some er"
  shows "fst (rpcCall post m ps s) =
     Inl (Error (''Network Error: RPC Error: '' @ message er @
                 '' (Code: '' @ show_int (code er) @ '')''))"
  using assms by (simp add: rpcCall_result rpcCall_try_def rpcCall_catch_def Error_def)

text \<open>
  C1. The claim: a transport failure raises a failure of the network-error kind carrying the
  cause's message, a response with a non-null error field raises a failure of a distinct
  RPC-error kind carrying the remote code and message, and a caller can tell the two apart.
  On the code: for the answer \<^verbatim>\<open>{result: null, error: {code: -5, message: "Invalid
  address"}}\<close> to \<^verbatim>\<open>validateaddress\<close>, \<^verbatim>\<open>rpcCall\<close> throws an error whose message is
  \<^verbatim>\<open>Network Error: RPC Error: Invalid address (Code: -5)\<close>, so of the network-error
  kind, and it throws the very same error when the transport fails with the message
  \<^verbatim>\<open>RPC Error: Invalid address (Code: -5)\<close>.
\<close>

theorem rpcCall_rpc_error_is_network_error:
  "fst (rpcCall node_rejects ''validateaddress'' [JStr ''t1abc''] new_service) =
     Inl (Error ''Network Error: RPC Error: Invalid address (Code: -5)'') \<and>
   fst (rpcCall transport_fails_with_rpc_text ''validateaddress'' [JStr ''t1abc''] new_service) =
     fst (rpcCall node_rejects ''validateaddress'' [JStr ''t1abc''] new_service)"
  by (simp add: rpcCall_result rpcCall_try_def rpcCall_catch_def node_rejects_def
      transport_fails_with_rpc_text_def Error_def show_int_minus_5)

subsection \<open>The correlation id\<close>

text \<open>
  Within the first \<open>2^53\<close> calls of a process the counter counts the calls; from then on it
  stays at \<open>2^53\<close>.
\<close>

lemma calls_requestId:
  "requestId s \<le> 9007199254740992 \<Longrightarrow>
   requestId (calls post cs s) = min (requestId s + int (length cs)) 9007199254740992"
proof (induction cs arbitrary: s)
  case Nil
  then show ?case by simp
next
  case (Cons c cs)
  let ?s1 = "snd (rpcCall post (fst c) (snd c) s)"
  have r1: "requestId ?s1 = min (requestId s + 1) 9007199254740992"
    using Cons.prems by (simp add: rpcCall_requestId js_incr_def)
  then have "requestId ?s1 \<le> 9007199254740992" by simp
  from Cons.IH [OF this] show ?case
    using r1 by (simp add: min_def)
qed

lemma saturated_service_reached:
  "length cs = 9007199254740992 \<Longrightarrow>
   requestId (calls post cs new_service) = requestId saturated_service"
  using calls_requestId [of new_service post cs]
  by (simp add: new_service_def saturated_service_def)

text \<open>
  C3, as stated: for every pair of successive calls to \<^verbatim>\<open>rpcCall\<close> the id in the second
  request is strictly greater than the id in the first. It fails once the counter is at
  \<open>2^53\<close>: the two requests of two successive calls both carry the id \<open>2^53\<close>.
\<close>

theorem requestId_repeats_counterexample:
  "\<not> id' (last (posted (snd (rpcCall node_down ''getblockcount'' [] saturated_service))))
     < id' (last (posted (snd (rpcCall node_down ''getblockcount'' []
              (snd (rpcCall node_down ''getblockcount'' [] saturated_service))))))"
  by (simp add: rpcCall_posted rpcCall_requestId saturated_service_def js_incr_def)

text \<open>
  Up to there the ids of a process are strictly increasing, hence pairwise distinct.
\<close>

lemma ids_ok_rpcCall:
  assumes "ids_ok s" and "requestId s < 9007199254740992"
  shows "ids_ok (snd (rpcCall post m ps s))"
  using assms
  by (auto simp: ids_ok_def rpcCall_state js_incr_def sorted_wrt_append)

lemma ids_ok_calls:
  "ids_ok s \<Longrightarrow> requestId s + int (length cs) \<le> 9007199254740992 \<Longrightarrow>
   ids_ok (calls post cs s)"
proof (induction cs arbitrary: s)
  case Nil
  then show ?case by simp
next
  case (Cons c cs)
  let ?s1 = "snd (rpcCall post (fst c) (snd c) s)"
  from Cons.prems have lt: "requestId s < 9007199254740992" by simp
  then have "requestId ?s1 = requestId s + 1"
    by (simp add: rpcCall_requestId js_incr_def)
  with Cons.prems have "requestId ?s1 + int (length cs) \<le> 9007199254740992" by simp
  moreover have "ids_ok ?s1" using Cons.prems(1) lt by (rule ids_ok_rpcCall)
  ultimately show ?case using Cons.IH by simp
qed

lemma calls_ids_increasing:
  assumes "int (length cs) \<le> 9007199254740992"
  shows "sorted_wrt (<) (map id' (posted (calls post cs new_service)))"
proof -
  have "ids_ok new_service" by (simp add: ids_ok_def new_service_def)
  moreover have "requestId new_service + int (length cs) \<le> 9007199254740992"
    using assms by (simp add: new_service_def)
  ultimately have "ids_ok (calls post cs new_service)" by (rule ids_ok_calls)
  then show ?thesis by (simp add: ids_ok_def)
qed

lemma calls_ids_distinct:
  assumes "int (length cs) \<le> 9007199254740992"
  shows "distinct (map id' (posted (calls post cs new_service)))"
  using calls_ids_increasing [OF assms] by (simp add: strict_sorted_iff)

text \<open>
  C3, amended: for every pair of successive calls to \<^verbatim>\<open>rpcCall\<close> made while the counter,
  before the first of them, is at least 0 and below \<open>2^53 - 1\<close>, the id in the second
  request is strictly greater than the id in the first.
\<close>

theorem requestId_increases:
  assumes "0 \<le> requestId s" and "requestId s < 9007199254740991"
  shows "id' (last (posted (snd (rpcCall post1 m1 ps1 s))))
     < id' (last (posted (snd (rpcCall post2 m2 ps2 (snd (rpcCall post1 m1 ps1 s))))))"
  using assms by (simp add: rpcCall_posted rpcCall_requestId js_incr_def)

theorem requestId_increases_witness:
  "0 \<le> requestId new_service \<and> requestId new_service < 9007199254740991 \<and>
   id' (last (posted (snd (rpcCall node_down ''getblockcount'' [] new_service))))
     < id' (last (posted (snd (rpcCall node_rejects ''getbalance'' [JStr ''*'', JNum 1]
              (snd (rpcCall node_down ''getblockcount'' [] new_service))))))"
  using requestId_increases [of new_service node_down "''getblockcount''" "[]"
      node_rejects "''getbalance''" "[JStr ''*'', JNum 1]"]
  by (simp add: new_service_def)

section \<open>Properties of the request handlers\<close>

lemma respond_state: "snd (respond shape out) = snd out"
  by (simp add: respond_def split: sum.splits)

lemma respond_reply:
  "fst (respond shape out) =
     (case fst out of Inl e \<Rightarrow> Next e | Inr d \<Rightarrow> Json 200 (success_body (shape d)))"
  by (simp add: respond_def split: sum.splits)

subsection \<open>Required fields\<close>

text \<open>
  C2. On each endpoint that has a required field (send: address and amount in the body;
  transaction and raw transaction: txid; validate: address; block: blockhash), a request in
  which the field is absent is answered with status 400 and the body
  \<^verbatim>\<open>{success: false, error: <message>}\<close>, and the service is left as it was: the counter
  is not advanced and nothing is posted to the node.
\<close>

theorem missing_required_field_rejected:
  "(body req ''address'' = None \<or> body req ''amount'' = None \<longrightarrow>
      ZCashController_sendToAddress post req s =
        (Json 400 (JObj [(''success'', JBool False),
                         (''error'', JStr ''Address and amount are required'')]), s)) \<and>
   (path_params req ''txid'' = None \<longrightarrow>
      ZCashController_getTransaction post req s =
        (Json 400 (JObj [(''success'', JBool False),
                         (''error'', JStr ''Transaction ID is required'')]), s)) \<and>
   (path_params req ''txid'' = None \<longrightarrow>
      ZCashController_getRawTransaction post req s =
        (Json 400 (JObj [(''success'', JBool False),
                         (''error'', JStr ''Transaction ID is required'')]), s)) \<and>
   (path_params req ''address'' = None \<longrightarrow>
      ZCashController_validateAddress post req s =
        (Json 400 (JObj [(''success'', JBool False),
                         (''error'', JStr ''Address is required'')]), s)) \<and>
   (path_params req ''blockhash'' = None \<longrightarrow>
      ZCashController_getBlock post req s =
        (Json 400 (JObj [(''success'', JBool False),
                         (''error'', JStr ''Block hash is required'')]), s))"
  by (auto simp: ZCashController_sendToAddress_def ZCashController_getTransaction_def
      ZCashController_getRawTransaction_def ZCashController_validateAddress_def
      ZCashController_getBlock_def truthy_opt_def truthy_str_def failure_body_def Let_def)

theorem missing_required_field_rejected_witness:
  "(body empty_request ''address'' = None \<or> body empty_request ''amount'' = None) \<and>
   path_params empty_request ''txid'' = None \<and>
   path_params empty_request ''address'' = None \<and>
   path_params empty_request ''blockhash'' = None \<and>
   ZCashController_sendToAddress node_echo empty_request new_service =
     (Json 400 (JObj [(''success'', JBool False),
                      (''error'', JStr ''Address and amount are required'')]), new_service) \<and>
   ZCashController_getTransaction node_echo empty_request new_service =
     (Json 400 (JObj [(''success'', JBool False),
                      (''error'', JStr ''Transaction ID is required'')]), new_service) \<and>
   ZCashController_getRawTransaction node_echo empty_request new_service =
     (Json 400 (JObj [(''success'', JBool False),
                      (''error'', JStr ''Transaction ID is required'')]), new_service) \<and>
   ZCashController_validateAddress node_echo empty_request new_service =
     (Json 400 (JObj [(''success'', JBool False),
                      (''error'', JStr ''Address is required'')]), new_service) \<and>
   ZCashController_getBlock node_echo empty_request new_service =
     (Json 400 (JObj [(''success'', JBool False),
                      (''error'', JStr ''Block hash is required'')]), new_service)"
  using missing_required_field_rejected [of empty_request node_echo new_service]
  by (simp add: empty_request_def)

text \<open>
  C9. The send handler tests its two required fields with \<^verbatim>\<open>!address || !amount\<close>, so a
  body whose address is the empty string, or whose amount is the number 0, is answered like
  one without the field: status 400, the same message, nothing posted to the node.
\<close>

theorem send_rejects_falsy_fields:
  "body req ''address'' = Some (JStr '''') \<or> body req ''amount'' = Some (JNum 0) \<Longrightarrow>
   ZCashController_sendToAddress post req s =
     (Json 400 (JObj [(''success'', JBool False),
                      (''error'', JStr ''Address and amount are required'')]), s)"
  by (auto simp: ZCashController_sendToAddress_def truthy_opt_def failure_body_def Let_def)

theorem send_rejects_falsy_fields_witness:
  "(body send_nothing ''address'' = Some (JStr '''') \<or>
    body send_nothing ''amount'' = Some (JNum 0)) \<and>
   ZCashController_sendToAddress node_echo send_nothing new_service =
     (Json 400 (JObj [(''success'', JBool False),
                      (''error'', JStr ''Address and amount are required'')]), new_service)"
  using send_rejects_falsy_fields [of send_nothing node_echo new_service]
  by (simp add: send_nothing_def empty_request_def)

subsection \<open>Calls that are made\<close>

lemma rpcCall_envelope:
  "posted (snd (rpcCall post m ps s)) = posted s @ [envelope s m ps]"
  by (simp add: rpcCall_posted envelope_def)

lemma rpcCall_returns_result:
  assumes "post (envelope s m ps) = Resolved response" and "error response = None"
  shows "fst (rpcCall post m ps s) = Inr (result response)"
  using assms by (simp add: rpcCall_result rpcCall_try_def envelope_def)

lemma respond_success:
  assumes "post (envelope s m ps) = Resolved response" and "error response = None"
  shows "respond shape (rpcCall post m ps s) =
     (Json 200 (JObj [(''success'', JBool True), (''data'', shape (result response))]),
      snd (rpcCall post m ps s))"
  using assms rpcCall_returns_result [of post s m ps response]
  by (simp add: respond_def success_body_def)

lemma parseInt_12: "parseInt (Some ''12'') = Finite 12"
  by code_simp

lemma parseInt_abc: "parseInt (Some ''abc'') = NaN"
  by code_simp

lemma parseInt_undefined: "parseInt None = NaN"
  by code_simp

lemmas eval_simps =
  full_request_def empty_request_def new_service_def node_echo_def envelope_def js_incr_def
  respond_state rpcCall_posted
  truthy_opt_def truthy_str_def or_default_def isNaN_def
  parseInt_undefined parseInt_12

text \<open>
  The Number \<^verbatim>\<open>parseInt\<close> returns is NaN exactly when the segment has no digits, and it
  is the integer of the digits itself up to magnitude \<open>2^53\<close>. Beyond that it is a
  neighbouring double, and beyond the doubles an infinity.
\<close>

lemma parseInt_NaN_iff: "parseInt v = NaN \<longleftrightarrow> parseInt_integer v = None"
  by (simp add: parseInt_def Number_of_integer_def split: option.splits)

lemma Number_of_integer_exact:
  "\<bar>i\<bar> \<le> 9007199254740992 \<Longrightarrow> Number_of_integer i = Finite i"
  by (simp add: Number_of_integer_def round_to_double_def)

lemma parseInt_exact:
  "parseInt_integer v = Some n \<Longrightarrow> \<bar>n\<bar> \<le> 9007199254740992 \<Longrightarrow> parseInt v = Finite n"
  by (simp add: parseInt_def Number_of_integer_exact)

lemma parseInt_integer_12: "parseInt_integer (Some ''12'') = Some 12"
  by code_simp

lemma parseInt_beyond_2_53:
  "parseInt_integer (Some ''9007199254740993'') = Some 9007199254740993"
  "parseInt (Some ''9007199254740993'') = Finite 9007199254740992"
  by code_simp+

lemma parseInt_310_digits: "parseInt (Some (replicate 310 CHR ''9'')) = PlusInfinity"
  by code_simp

lemma getBlockHash_parsed:
  assumes "parseInt (path_params req ''height'') \<noteq> NaN"
  shows "ZCashController_getBlockHash post req s =
     respond (\<lambda>blockhash. JObj [(''height'', num_json (parseInt (path_params req ''height''))),
                                 (''blockhash'', blockhash)])
       (rpcCall post ''getblockhash'' [num_json (parseInt (path_params req ''height''))] s)"
  using assms
  by (simp add: ZCashController_getBlockHash_def ZCashService_getBlockHash_def isNaN_def
      Let_def)

text \<open>
  A height of 310 digits is not NaN, so the handler calls the node; the parameter it sends
  and the height it echoes are \<^verbatim>\<open>null\<close>.
\<close>

lemma getBlockHash_height_beyond_doubles:
  "ZCashController_getBlockHash node_echo height_310_digits new_service =
     (Json 200 (JObj [(''success'', JBool True),
                      (''data'', JObj [(''height'', JNull),
                                       (''blockhash'', echo ''getblockhash'' [JNull])])]),
      \<lparr>requestId = 1,
       posted = [\<lparr>jsonrpc = ''2.0'', id' = 1, method' = ''getblockhash'',
                  params = [JNull]\<rparr>]\<rparr>)"
  by (simp add: ZCashController_getBlockHash_def ZCashService_getBlockHash_def isNaN_def
      height_310_digits_def empty_request_def parseInt_310_digits respond_def rpcCall_def
      rpcCall_try_def node_echo_def success_body_def new_service_def js_incr_def)

text \<open>
  C6, as stated: for every request whose height segment parses as an integer, exactly one
  \<^verbatim>\<open>getblockhash\<close> call is made with that height, and the response data echoes the
  height. It fails for the segment \<^verbatim>\<open>9007199254740993\<close>: the digits denote
  9007199254740993, and the one call that is made, and the echoed height, carry
  9007199254740992.
\<close>

theorem block_hash_height_rounded_counterexample:
  "parseInt_integer (path_params height_beyond_2_53 ''height'') = Some 9007199254740993 \<and>
   posted (snd (ZCashController_getBlockHash node_echo height_beyond_2_53 new_service)) \<noteq>
     [\<lparr>jsonrpc = ''2.0'', id' = 1, method' = ''getblockhash'',
       params = [JNum 9007199254740993]\<rparr>] \<and>
   ZCashController_getBlockHash node_echo height_beyond_2_53 new_service =
     (Json 200 (JObj [(''success'', JBool True),
                      (''data'',
                       JObj [(''height'', JNum 9007199254740992),
                             (''blockhash'', echo ''getblockhash'' [JNum 9007199254740992])])]),
      \<lparr>requestId = 1,
       posted = [\<lparr>jsonrpc = ''2.0'', id' = 1, method' = ''getblockhash'',
                  params = [JNum 9007199254740992]\<rparr>]\<rparr>)"
  by (simp add: ZCashController_getBlockHash_def ZCashService_getBlockHash_def isNaN_def
      height_beyond_2_53_def empty_request_def parseInt_beyond_2_53 respond_def rpcCall_def
      rpcCall_try_def node_echo_def success_body_def new_service_def js_incr_def)

text \<open>
  C6, amended. The block-hash handler reads the height with \<^verbatim>\<open>parseInt\<close> and tests it
  with \<^verbatim>\<open>isNaN\<close>. A height that parses to NaN is answered with status 400 and
  \<^verbatim>\<open>{success: false, error: 'Valid block height is required'}\<close>, with the service left as
  it was. Any other height makes the handler post exactly one request, for
  \<^verbatim>\<open>getblockhash\<close>, whose one parameter is the Number \<^verbatim>\<open>parseInt\<close> returned, and
  when the node answers it with a result the reply is status 200 with that same Number and
  the result as data \<^verbatim>\<open>{height, blockhash}\<close>. For a segment whose digits denote an
  integer \<open>n\<close> of magnitude at most \<open>2^53\<close> the Number is \<open>n\<close>: the call is made with
  that height and the reply echoes it.
\<close>

theorem block_hash_requires_integer_height:
  "(parseInt (path_params req ''height'') = NaN \<longrightarrow>
      ZCashController_getBlockHash post req s =
        (Json 400 (JObj [(''success'', JBool False),
                         (''error'', JStr ''Valid block height is required'')]), s)) \<and>
   (parseInt (path_params req ''height'') \<noteq> NaN \<longrightarrow>
      posted (snd (ZCashController_getBlockHash post req s)) =
        posted s @ [envelope s ''getblockhash''
                      [num_json (parseInt (path_params req ''height''))]] \<and>
      (post (envelope s ''getblockhash'' [num_json (parseInt (path_params req ''height''))])
         = Resolved response \<and>
       error response = None \<longrightarrow>
         fst (ZCashController_getBlockHash post req s) =
           Json 200 (JObj [(''success'', JBool True),
                           (''data'',
                            JObj [(''height'', num_json (parseInt (path_params req ''height''))),
                                  (''blockhash'', result response)])]))) \<and>
   (parseInt_integer (path_params req ''height'') = Some n \<and> \<bar>n\<bar> \<le> 9007199254740992 \<longrightarrow>
      posted (snd (ZCashController_getBlockHash post req s)) =
        posted s @ [envelope s ''getblockhash'' [JNum (of_int n)]] \<and>
      (post (envelope s ''getblockhash'' [JNum (of_int n)]) = Resolved response \<and>
       error response = None \<longrightarrow>
         fst (ZCashController_getBlockHash post req s) =
           Json 200 (JObj [(''success'', JBool True),
                           (''data'', JObj [(''height'', JNum (of_int n)),
                                            (''blockhash'', result response)])])))"
  (is "?rejected \<and> ?rounded \<and> (?small \<longrightarrow> ?same)")
proof -
  have called: "posted (snd (ZCashController_getBlockHash post req s)) =
        posted s @ [envelope s ''getblockhash'' [num_json h]] \<and>
      (post (envelope s ''getblockhash'' [num_json h]) = Resolved response \<and>
       error response = None \<longrightarrow>
         fst (ZCashController_getBlockHash post req s) =
           Json 200 (JObj [(''success'', JBool True),
                           (''data'', JObj [(''height'', num_json h),
                                            (''blockhash'', result response)])]))"
    if "parseInt (path_params req ''height'') = h" and "h \<noteq> NaN" for h
    using that
    by (simp add: getBlockHash_parsed respond_state rpcCall_envelope respond_success)
  have ?rejected
    by (simp add: ZCashController_getBlockHash_def isNaN_def failure_body_def)
  moreover have ?rounded
    using called [OF refl] by blast
  moreover have "?small \<longrightarrow> ?same"
  proof
    assume ?small
    then have "parseInt (path_params req ''height'') = Finite n"
      by (simp add: parseInt_exact)
    from called [OF this] show ?same by simp
  qed
  ultimately show ?thesis by blast
qed

theorem block_hash_requires_integer_height_witness:
  "parseInt (path_params height_abc ''height'') = NaN \<and>
   ZCashController_getBlockHash node_echo height_abc new_service =
     (Json 400 (JObj [(''success'', JBool False),
                      (''error'', JStr ''Valid block height is required'')]), new_service) \<and>
   parseInt (path_params full_request ''height'') \<noteq> NaN \<and>
   parseInt_integer (path_params full_request ''height'') = Some 12 \<and>
   \<bar>12 :: int\<bar> \<le> 9007199254740992 \<and>
   posted (snd (ZCashController_getBlockHash node_echo full_request new_service)) =
     [\<lparr>jsonrpc = ''2.0'', id' = 1, method' = ''getblockhash'', params = [JNum 12]\<rparr>] \<and>
   fst (ZCashController_getBlockHash node_echo full_request new_service) =
     Json 200 (JObj [(''success'', JBool True),
                     (''data'', JObj [(''height'', JNum 12),
                                      (''blockhash'', echo ''getblockhash'' [JNum 12])])])"
  using block_hash_requires_integer_height [where req = height_abc and post = node_echo
      and s = new_service]
    block_hash_requires_integer_height [where req = full_request and n = 12
      and post = node_echo and s = new_service
      and response = "\<lparr>result = echo ''getblockhash'' [JNum 12],
                       error = None, response_id = 1\<rparr>"]
  by (simp add: height_abc_def full_request_def empty_request_def parseInt_12 parseInt_abc
      parseInt_integer_12 envelope_def new_service_def js_incr_def node_echo_def)

text \<open>
  C10. For a raw-transaction request with a txid, the handler posts exactly one request, for
  \<^verbatim>\<open>getrawtransaction\<close>, whose second parameter is the number 1 when the query
  parameter \<^verbatim>\<open>verbose\<close> is present and is the string \<^verbatim>\<open>true\<close>, and the number 0 in
  every other case (another string, or no such parameter); it is never a boolean.
\<close>

theorem raw_transaction_verbose_flag:
  assumes "path_params req ''txid'' = Some txid" and "txid \<noteq> []"
  shows "posted (snd (ZCashController_getRawTransaction post req s)) =
     posted s @ [envelope s ''getrawtransaction''
                   [JStr txid, JNum (if query req ''verbose'' = Some ''true'' then 1 else 0)]]"
  using assms
  by (simp add: ZCashController_getRawTransaction_def ZCashService_getRawTransaction_def
      truthy_str_def respond_state rpcCall_envelope)

theorem raw_transaction_verbose_flag_witness:
  "path_params (raw_request (Some ''true'')) ''txid'' = Some ''ab12'' \<and> ''ab12'' \<noteq> [] \<and>
   posted (snd (ZCashController_getRawTransaction node_echo (raw_request (Some ''true''))
                  new_service)) =
     [\<lparr>jsonrpc = ''2.0'', id' = 1, method' = ''getrawtransaction'',
       params = [JStr ''ab12'', JNum 1]\<rparr>] \<and>
   posted (snd (ZCashController_getRawTransaction node_echo (raw_request (Some ''TRUE''))
                  new_service)) =
     [\<lparr>jsonrpc = ''2.0'', id' = 1, method' = ''getrawtransaction'',
       params = [JStr ''ab12'', JNum 0]\<rparr>] \<and>
   posted (snd (ZCashController_getRawTransaction node_echo (raw_request (Some ''1''))
                  new_service)) =
     [\<lparr>jsonrpc = ''2.0'', id' = 1, method' = ''getrawtransaction'',
       params = [JStr ''ab12'', JNum 0]\<rparr>] \<and>
   posted (snd (ZCashController_getRawTransaction node_echo (raw_request None)
                  new_service)) =
     [\<lparr>jsonrpc = ''2.0'', id' = 1, method' = ''getrawtransaction'',
       params = [JStr ''ab12'', JNum 0]\<rparr>]"
  using raw_transaction_verbose_flag [of "raw_request (Some ''true'')" "''ab12''" node_echo new_service]
    raw_transaction_verbose_flag [of "raw_request (Some ''TRUE'')" "''ab12''" node_echo new_service]
    raw_transaction_verbose_flag [of "raw_request (Some ''1'')" "''ab12''" node_echo new_service]
    raw_transaction_verbose_flag [of "raw_request None" "''ab12''" node_echo new_service]
  by (simp add: raw_request_def empty_request_def envelope_def new_service_def js_incr_def)

subsection \<open>The success path\<close>

lemma rpcCall_result_unchanged:
  "post (envelope s m ps) = Resolved response \<and> error response = None \<longrightarrow>
   fst (rpcCall post m ps s) = Inr (result response)"
  by (simp add: rpcCall_returns_result)

lemma respond_rpcCall_success:
  assumes "post (envelope s m ps) = Resolved response" and "error response = None"
  shows "respond shape (rpcCall post m ps s) =
     (Json 200 (JObj [(''success'', JBool True), (''data'', shape (result response))]),
      s\<lparr>requestId := js_incr (requestId s), posted := posted s @ [envelope s m ps]\<rparr>)"
  using assms by (simp add: respond_success rpcCall_state envelope_def)

lemma getBlockchainInfo_success:
  "success_path ZCashController_getBlockchainInfo post req s ''getblockchaininfo''
    []
    response (result response)"
  by (simp add: ZCashController_getBlockchainInfo_def ZCashService_getBlockchainInfo_def isNaN_def
      Let_def respond_rpcCall_success [where response = response])

lemma getWalletInfo_success:
  "success_path ZCashController_getWalletInfo post req s ''getwalletinfo''
    []
    response (result response)"
  by (simp add: ZCashController_getWalletInfo_def ZCashService_getWalletInfo_def isNaN_def
      Let_def respond_rpcCall_success [where response = response])

lemma getBalance_success:
  "success_path ZCashController_getBalance post req s ''getbalance''
    [JStr ''*'', num_json (or_default (parseInt (query req ''minConfirmations'')) 1)]
    response (JObj [(''balance'', result response),
           (''minConfirmations'',
            num_json (or_default (parseInt (query req ''minConfirmations'')) 1))])"
  by (simp add: ZCashController_getBalance_def ZCashService_getBalance_def isNaN_def
      Let_def respond_rpcCall_success [where response = response])

lemma getNewAddress_success:
  "success_path ZCashController_getNewAddress post req s ''getnewaddress''
    [if truthy_opt (body req ''account'') then the (body req ''account'')
         else JStr '''']
    response (JObj [(''address'', result response)])"
  by (simp add: ZCashController_getNewAddress_def ZCashService_getNewAddress_def isNaN_def
      Let_def respond_rpcCall_success [where response = response])

lemma getTransaction_success:
  "(truthy_str (path_params req ''txid'') \<longrightarrow>
     success_path ZCashController_getTransaction post req s ''gettransaction''
       [JStr (the (path_params req ''txid''))]
       response (result response))"
  by (simp add: ZCashController_getTransaction_def ZCashService_getTransaction_def isNaN_def
      Let_def respond_rpcCall_success [where response = response])

lemma listTransactions_success:
  "success_path ZCashController_listTransactions post req s ''listtransactions''
    [JStr ''*'',
     num_json (or_default (parseInt (query req ''count'')) 10),
     num_json (or_default (parseInt (query req ''skip'')) 0)]
    response (result response)"
  by (simp add: ZCashController_listTransactions_def ZCashService_listTransactions_def isNaN_def
      Let_def respond_rpcCall_success [where response = response])

lemma sendToAddress_success:
  "(truthy_opt (body req ''address'') \<and> truthy_opt (body req ''amount'') \<longrightarrow>
     success_path ZCashController_sendToAddress post req s ''sendtoaddress''
       [the (body req ''address''),
        the (body req ''amount''),
        case body req ''comment'' of None \<Rightarrow> JStr '''' | Some c \<Rightarrow> c]
       response (JObj [(''txid'', result response)]))"
  by (simp add: ZCashController_sendToAddress_def ZCashService_sendToAddress_def isNaN_def
      Let_def respond_rpcCall_success [where response = response])

lemma validateAddress_success:
  "(truthy_str (path_params req ''address'') \<longrightarrow>
     success_path ZCashController_validateAddress post req s ''validateaddress''
       [JStr (the (path_params req ''address''))]
       response (result response))"
  by (simp add: ZCashController_validateAddress_def ZCashService_validateAddress_def isNaN_def
      Let_def respond_rpcCall_success [where response = response])

lemma getBlock_success:
  "(truthy_str (path_params req ''blockhash'') \<longrightarrow>
     success_path ZCashController_getBlock post req s ''getblock''
       [JStr (the (path_params req ''blockhash'')),
        num_json (or_default (parseInt (query req ''verbosity'')) 1)]
       response (result response))"
  by (simp add: ZCashController_getBlock_def ZCashService_getBlock_def isNaN_def
      Let_def respond_rpcCall_success [where response = response])

lemma getBlockCount_success:
  "success_path ZCashController_getBlockCount post req s ''getblockcount''
    []
    response (JObj [(''blockCount'', result response)])"
  by (simp add: ZCashController_getBlockCount_def ZCashService_getBlockCount_def isNaN_def
      Let_def respond_rpcCall_success [where response = response])

lemma getBlockHash_success:
  "(parseInt (path_params req ''height'') \<noteq> NaN \<longrightarrow>
     success_path ZCashController_getBlockHash post req s ''getblockhash''
       [num_json (parseInt (path_params req ''height''))]
       response (JObj [(''height'', num_json (parseInt (path_params req ''height''))),
              (''blockhash'', result response)]))"
  by (simp add: ZCashController_getBlockHash_def ZCashService_getBlockHash_def isNaN_def
      Let_def respond_rpcCall_success [where response = response])

lemma getNetworkInfo_success:
  "success_path ZCashController_getNetworkInfo post req s ''getnetworkinfo''
    []
    response (result response)"
  by (simp add: ZCashController_getNetworkInfo_def ZCashService_getNetworkInfo_def isNaN_def
      Let_def respond_rpcCall_success [where response = response])

lemma getMiningInfo_success:
  "success_path ZCashController_getMiningInfo post req s ''getmininginfo''
    []
    response (result response)"
  by (simp add: ZCashController_getMiningInfo_def ZCashService_getMiningInfo_def isNaN_def
      Let_def respond_rpcCall_success [where response = response])

lemma listUnspent_success:
  "success_path ZCashController_listUnspent post req s ''listunspent''
    [num_json (or_default (parseInt (query req ''minConfirmations'')) 1),
     num_json (or_default (parseInt (query req ''maxConfirmations'')) 9999999)]
    response (result response)"
  by (simp add: ZCashController_listUnspent_def ZCashService_listUnspent_def isNaN_def
      Let_def respond_rpcCall_success [where response = response])

lemma getRawTransaction_success:
  "(truthy_str (path_params req ''txid'') \<longrightarrow>
     success_path ZCashController_getRawTransaction post req s ''getrawtransaction''
       [JStr (the (path_params req ''txid'')),
        JNum (if query req ''verbose'' = Some ''true'' then 1 else 0)]
       response (result response))"
  by (simp add: ZCashController_getRawTransaction_def ZCashService_getRawTransaction_def isNaN_def
      Let_def respond_rpcCall_success [where response = response])

lemma estimateFee_success:
  "success_path ZCashController_estimateFee post req s ''estimatefee''
    [num_json (or_default (parseInt (query req ''nblocks'')) 6)]
    response (JObj [(''fee'', result response),
           (''nblocks'', num_json (or_default (parseInt (query req ''nblocks'')) 6))])"
  by (simp add: ZCashController_estimateFee_def ZCashService_estimateFee_def isNaN_def
      Let_def respond_rpcCall_success [where response = response])

lemma getConnectionCount_success:
  "success_path ZCashController_getConnectionCount post req s ''getconnectioncount''
    []
    response (JObj [(''connections'', result response)])"
  by (simp add: ZCashController_getConnectionCount_def ZCashService_getConnectionCount_def isNaN_def
      Let_def respond_rpcCall_success [where response = response])

text \<open>
  C7. When the post of a call resolves with a response whose error field is null,
  \<^verbatim>\<open>rpcCall\<close> returns the result field of that response as it is. And on every one of
  the seventeen endpoints, for a request that passes the handler's own check, when the node
  answers the handler's call (the method and the parameter list written out below) in that
  way, the handler posts exactly that one request and replies with status 200 and
  \<^verbatim>\<open>{success: true, data: ...}\<close>, the data being the result itself or the result inside
  the endpoint's own object (\<^verbatim>\<open>{balance, minConfirmations}\<close>, \<^verbatim>\<open>{address}\<close>,
  \<^verbatim>\<open>{txid}\<close>, \<^verbatim>\<open>{blockCount}\<close>, \<^verbatim>\<open>{height, blockhash}\<close>, \<^verbatim>\<open>{fee, nblocks}\<close>,
  \<^verbatim>\<open>{connections}\<close>).
\<close>

theorem success_path_wraps_result:
  "(post (envelope s m ps) = Resolved response \<and> error response = None \<longrightarrow>
      fst (rpcCall post m ps s) = Inr (result response)) \<and>
   success_path ZCashController_getBlockchainInfo post req s ''getblockchaininfo''
     []
     response (result response) \<and>
   success_path ZCashController_getWalletInfo post req s ''getwalletinfo''
     []
     response (result response) \<and>
   success_path ZCashController_getBalance post req s ''getbalance''
     [JStr ''*'', num_json (or_default (parseInt (query req ''minConfirmations'')) 1)]
     response (JObj [(''balance'', result response),
            (''minConfirmations'',
             num_json (or_default (parseInt (query req ''minConfirmations'')) 1))]) \<and>
   success_path ZCashController_getNewAddress post req s ''getnewaddress''
     [if truthy_opt (body req ''account'') then the (body req ''account'')
         else JStr '''']
     response (JObj [(''address'', result response)]) \<and>
   (truthy_str (path_params req ''txid'') \<longrightarrow>
      success_path ZCashController_getTransaction post req s ''gettransaction''
        [JStr (the (path_params req ''txid''))]
        response (result response)) \<and>
   success_path ZCashController_listTransactions post req s ''listtransactions''
     [JStr ''*'',
      num_json (or_default (parseInt (query req ''count'')) 10),
      num_json (or_default (parseInt (query req ''skip'')) 0)]
     response (result response) \<and>
   (truthy_opt (body req ''address'') \<and> truthy_opt (body req ''amount'') \<longrightarrow>
      success_path ZCashController_sendToAddress post req s ''sendtoaddress''
        [the (body req ''address''),
         the (body req ''amount''),
         case body req ''comment'' of None \<Rightarrow> JStr '''' | Some c \<Rightarrow> c]
        response (JObj [(''txid'', result response)])) \<and>
   (truthy_str (path_params req ''address'') \<longrightarrow>
      success_path ZCashController_validateAddress post req s ''validateaddress''
        [JStr (the (path_params req ''address''))]
        response (result response)) \<and>
   (truthy_str (path_params req ''blockhash'') \<longrightarrow>
      success_path ZCashController_getBlock post req s ''getblock''
        [JStr (the (path_params req ''blockhash'')),
         num_json (or_default (parseInt (query req ''verbosity'')) 1)]
        response (result response)) \<and>
   success_path ZCashController_getBlockCount post req s ''getblockcount''
     []
     response (JObj [(''blockCount'', result response)]) \<and>
   (parseInt (path_params req ''height'') \<noteq> NaN \<longrightarrow>
      success_path ZCashController_getBlockHash post req s ''getblockhash''
        [num_json (parseInt (path_params req ''height''))]
        response (JObj [(''height'', num_json (parseInt (path_params req ''height''))),
               (''blockhash'', result response)])) \<and>
   success_path ZCashController_getNetworkInfo post req s ''getnetworkinfo''
     []
     response (result response) \<and>
   success_path ZCashController_getMiningInfo post req s ''getmininginfo''
     []
     response (result response) \<and>
   success_path ZCashController_listUnspent post req s ''listunspent''
     [num_json (or_default (parseInt (query req ''minConfirmations'')) 1),
      num_json (or_default (parseInt (query req ''maxConfirmations'')) 9999999)]
     response (result response) \<and>
   (truthy_str (path_params req ''txid'') \<longrightarrow>
      success_path ZCashController_getRawTransaction post req s ''getrawtransaction''
        [JStr (the (path_params req ''txid'')),
         JNum (if query req ''verbose'' = Some ''true'' then 1 else 0)]
        response (result response)) \<and>
   success_path ZCashController_estimateFee post req s ''estimatefee''
     [num_json (or_default (parseInt (query req ''nblocks'')) 6)]
     response (JObj [(''fee'', result response),
            (''nblocks'', num_json (or_default (parseInt (query req ''nblocks'')) 6))]) \<and>
   success_path ZCashController_getConnectionCount post req s ''getconnectioncount''
     []
     response (JObj [(''connections'', result response)])"
  by (intro conjI rpcCall_result_unchanged
      getBlockchainInfo_success getWalletInfo_success getBalance_success
      getNewAddress_success getTransaction_success listTransactions_success
      sendToAddress_success validateAddress_success getBlock_success getBlockCount_success
      getBlockHash_success getNetworkInfo_success getMiningInfo_success listUnspent_success
      getRawTransaction_success estimateFee_success getConnectionCount_success)

theorem success_path_wraps_result_witness:
  "ZCashController_getBlockchainInfo node_echo full_request new_service =
     (Json 200 (JObj [(''success'', JBool True),
                      (''data'', echo ''getblockchaininfo'' [])]),
      \<lparr>requestId = 1,
       posted = [\<lparr>jsonrpc = ''2.0'', id' = 1, method' = ''getblockchaininfo'',
                  params = []\<rparr>]\<rparr>) \<and>
   ZCashController_getWalletInfo node_echo full_request new_service =
     (Json 200 (JObj [(''success'', JBool True),
                      (''data'', echo ''getwalletinfo'' [])]),
      \<lparr>requestId = 1,
       posted = [\<lparr>jsonrpc = ''2.0'', id' = 1, method' = ''getwalletinfo'',
                  params = []\<rparr>]\<rparr>) \<and>
   ZCashController_getBalance node_echo full_request new_service =
     (Json 200 (JObj [(''success'', JBool True),
                      (''data'', JObj
                    [(''balance'', echo ''getbalance'' [JStr ''*'', JNum 1]),
                     (''minConfirmations'', JNum 1)])]),
      \<lparr>requestId = 1,
       posted = [\<lparr>jsonrpc = ''2.0'', id' = 1, method' = ''getbalance'',
                  params = [JStr ''*'', JNum 1]\<rparr>]\<rparr>) \<and>
   ZCashController_getNewAddress node_echo full_request new_service =
     (Json 200 (JObj [(''success'', JBool True),
                      (''data'', JObj
                    [(''address'', echo ''getnewaddress'' [JStr ''''])])]),
      \<lparr>requestId = 1,
       posted = [\<lparr>jsonrpc = ''2.0'', id' = 1, method' = ''getnewaddress'',
                  params = [JStr '''']\<rparr>]\<rparr>) \<and>
   ZCashController_getTransaction node_echo full_request new_service =
     (Json 200 (JObj [(''success'', JBool True),
                      (''data'', echo ''gettransaction'' [JStr ''ab12''])]),
      \<lparr>requestId = 1,
       posted = [\<lparr>jsonrpc = ''2.0'', id' = 1, method' = ''gettransaction'',
                  params = [JStr ''ab12'']\<rparr>]\<rparr>) \<and>
   ZCashController_listTransactions node_echo full_request new_service =
     (Json 200 (JObj [(''success'', JBool True),
                      (''data'', echo ''listtransactions'' [JStr ''*'', JNum 10, JNum 0])]),
      \<lparr>requestId = 1,
       posted = [\<lparr>jsonrpc = ''2.0'', id' = 1, method' = ''listtransactions'',
                  params = [JStr ''*'', JNum 10, JNum 0]\<rparr>]\<rparr>) \<and>
   ZCashController_sendToAddress node_echo full_request new_service =
     (Json 200 (JObj [(''success'', JBool True),
                      (''data'', JObj
                    [(''txid'', echo ''sendtoaddress'' [JStr ''t1abc'', JNum (1 / 1000), JStr ''''])])]),
      \<lparr>requestId = 1,
       posted = [\<lparr>jsonrpc = ''2.0'', id' = 1, method' = ''sendtoaddress'',
                  params = [JStr ''t1abc'', JNum (1 / 1000), JStr '''']\<rparr>]\<rparr>) \<and>
   ZCashController_validateAddress node_echo full_request new_service =
     (Json 200 (JObj [(''success'', JBool True),
                      (''data'', echo ''validateaddress'' [JStr ''t1abc''])]),
      \<lparr>requestId = 1,
       posted = [\<lparr>jsonrpc = ''2.0'', id' = 1, method' = ''validateaddress'',
                  params = [JStr ''t1abc'']\<rparr>]\<rparr>) \<and>
   ZCashController_getBlock node_echo full_request new_service =
     (Json 200 (JObj [(''success'', JBool True),
                      (''data'', echo ''getblock'' [JStr ''00ff'', JNum 1])]),
      \<lparr>requestId = 1,
       posted = [\<lparr>jsonrpc = ''2.0'', id' = 1, method' = ''getblock'',
                  params = [JStr ''00ff'', JNum 1]\<rparr>]\<rparr>) \<and>
   ZCashController_getBlockCount node_echo full_request new_service =
     (Json 200 (JObj [(''success'', JBool True),
                      (''data'', JObj
                    [(''blockCount'', echo ''getblockcount'' [])])]),
      \<lparr>requestId = 1,
       posted = [\<lparr>jsonrpc = ''2.0'', id' = 1, method' = ''getblockcount'',
                  params = []\<rparr>]\<rparr>) \<and>
   ZCashController_getBlockHash node_echo full_request new_service =
     (Json 200 (JObj [(''success'', JBool True),
                      (''data'', JObj
                    [(''height'', JNum 12),
                     (''blockhash'', echo ''getblockhash'' [JNum 12])])]),
      \<lparr>requestId = 1,
       posted = [\<lparr>jsonrpc = ''2.0'', id' = 1, method' = ''getblockhash'',
                  params = [JNum 12]\<rparr>]\<rparr>) \<and>
   ZCashController_getNetworkInfo node_echo full_request new_service =
     (Json 200 (JObj [(''success'', JBool True),
                      (''data'', echo ''getnetworkinfo'' [])]),
      \<lparr>requestId = 1,
       posted = [\<lparr>jsonrpc = ''2.0'', id' = 1, method' = ''getnetworkinfo'',
                  params = []\<rparr>]\<rparr>) \<and>
   ZCashController_getMiningInfo node_echo full_request new_service =
     (Json 200 (JObj [(''success'', JBool True),
                      (''data'', echo ''getmininginfo'' [])]),
      \<lparr>requestId = 1,
       posted = [\<lparr>jsonrpc = ''2.0'', id' = 1, method' = ''getmininginfo'',
                  params = []\<rparr>]\<rparr>) \<and>
   ZCashController_listUnspent node_echo full_request new_service =
     (Json 200 (JObj [(''success'', JBool True),
                      (''data'', echo ''listunspent'' [JNum 1, JNum 9999999])]),
      \<lparr>requestId = 1,
       posted = [\<lparr>jsonrpc = ''2.0'', id' = 1, method' = ''listunspent'',
                  params = [JNum 1, JNum 9999999]\<rparr>]\<rparr>) \<and>
   ZCashController_getRawTransaction node_echo full_request new_service =
     (Json 200 (JObj [(''success'', JBool True),
                      (''data'', echo ''getrawtransaction'' [JStr ''ab12'', JNum 0])]),
      \<lparr>requestId = 1,
       posted = [\<lparr>jsonrpc = ''2.0'', id' = 1, method' = ''getrawtransaction'',
                  params = [JStr ''ab12'', JNum 0]\<rparr>]\<rparr>) \<and>
   ZCashController_estimateFee node_echo full_request new_service =
     (Json 200 (JObj [(''success'', JBool True),
                      (''data'', JObj
                    [(''fee'', echo ''estimatefee'' [JNum 6]),
                     (''nblocks'', JNum 6)])]),
      \<lparr>requestId = 1,
       posted = [\<lparr>jsonrpc = ''2.0'', id' = 1, method' = ''estimatefee'',
                  params = [JNum 6]\<rparr>]\<rparr>) \<and>
   ZCashController_getConnectionCount node_echo full_request new_service =
     (Json 200 (JObj [(''success'', JBool True),
                      (''data'', JObj
                    [(''connections'', echo ''getconnectioncount'' [])])]),
      \<lparr>requestId = 1,
       posted = [\<lparr>jsonrpc = ''2.0'', id' = 1, method' = ''getconnectioncount'',
                  params = []\<rparr>]\<rparr>)"
proof -
  have h1: "ZCashController_getBlockchainInfo node_echo full_request new_service =
       (Json 200 (JObj [(''success'', JBool True),
                        (''data'', echo ''getblockchaininfo'' [])]),
        \<lparr>requestId = 1,
         posted = [\<lparr>jsonrpc = ''2.0'', id' = 1, method' = ''getblockchaininfo'',
                    params = []\<rparr>]\<rparr>)"
    using success_path_wraps_result [where post = node_echo and req = full_request
        and s = new_service
        and response = "\<lparr>result = echo ''getblockchaininfo'' [],
                         error = None, response_id = 1\<rparr>"]
    by (simp add: eval_simps)
  have h2: "ZCashController_getWalletInfo node_echo full_request new_service =
       (Json 200 (JObj [(''success'', JBool True),
                        (''data'', echo ''getwalletinfo'' [])]),
        \<lparr>requestId = 1,
         posted = [\<lparr>jsonrpc = ''2.0'', id' = 1, method' = ''getwalletinfo'',
                    params = []\<rparr>]\<rparr>)"
    using success_path_wraps_result [where post = node_echo and req = full_request
        and s = new_service
        and response = "\<lparr>result = echo ''getwalletinfo'' [],
                         error = None, response_id = 1\<rparr>"]
    by (simp add: eval_simps)
  have h3: "ZCashController_getBalance node_echo full_request new_service =
       (Json 200 (JObj [(''success'', JBool True),
                        (''data'', JObj
                      [(''balance'', echo ''getbalance'' [JStr ''*'', JNum 1]),
                       (''minConfirmations'', JNum 1)])]),
        \<lparr>requestId = 1,
         posted = [\<lparr>jsonrpc = ''2.0'', id' = 1, method' = ''getbalance'',
                    params = [JStr ''*'', JNum 1]\<rparr>]\<rparr>)"
    using success_path_wraps_result [where post = node_echo and req = full_request
        and s = new_service
        and response = "\<lparr>result = echo ''getbalance'' [JStr ''*'', JNum 1],
                         error = None, response_id = 1\<rparr>"]
    by (simp add: eval_simps)
  have h4: "ZCashController_getNewAddress node_echo full_request new_service =
       (Json 200 (JObj [(''success'', JBool True),
                        (''data'', JObj
                      [(''address'', echo ''getnewaddress'' [JStr ''''])])]),
        \<lparr>requestId = 1,
         posted = [\<lparr>jsonrpc = ''2.0'', id' = 1, method' = ''getnewaddress'',
                    params = [JStr '''']\<rparr>]\<rparr>)"
    using success_path_wraps_result [where post = node_echo and req = full_request
        and s = new_service
        and response = "\<lparr>result = echo ''getnewaddress'' [JStr ''''],
                         error = None, response_id = 1\<rparr>"]
    by (simp add: eval_simps)
  have h5: "ZCashController_getTransaction node_echo full_request new_service =
       (Json 200 (JObj [(''success'', JBool True),
                        (''data'', echo ''gettransaction'' [JStr ''ab12''])]),
        \<lparr>requestId = 1,
         posted = [\<lparr>jsonrpc = ''2.0'', id' = 1, method' = ''gettransaction'',
                    params = [JStr ''ab12'']\<rparr>]\<rparr>)"
    using success_path_wraps_result [where post = node_echo and req = full_request
        and s = new_service
        and response = "\<lparr>result = echo ''gettransaction'' [JStr ''ab12''],
                         error = None, response_id = 1\<rparr>"]
    by (simp add: eval_simps)
  have h6: "ZCashController_listTransactions node_echo full_request new_service =
       (Json 200 (JObj [(''success'', JBool True),
                        (''data'', echo ''listtransactions'' [JStr ''*'', JNum 10, JNum 0])]),
        \<lparr>requestId = 1,
         posted = [\<lparr>jsonrpc = ''2.0'', id' = 1, method' = ''listtransactions'',
                    params = [JStr ''*'', JNum 10, JNum 0]\<rparr>]\<rparr>)"
    using success_path_wraps_result [where post = node_echo and req = full_request
        and s = new_service
        and response = "\<lparr>result = echo ''listtransactions'' [JStr ''*'', JNum 10, JNum 0],
                         error = None, response_id = 1\<rparr>"]
    by (simp add: eval_simps)
  have h7: "ZCashController_sendToAddress node_echo full_request new_service =
       (Json 200 (JObj [(''success'', JBool True),
                        (''data'', JObj
                      [(''txid'', echo ''sendtoaddress'' [JStr ''t1abc'', JNum (1 / 1000), JStr ''''])])]),
        \<lparr>requestId = 1,
         posted = [\<lparr>jsonrpc = ''2.0'', id' = 1, method' = ''sendtoaddress'',
                    params = [JStr ''t1abc'', JNum (1 / 1000), JStr '''']\<rparr>]\<rparr>)"
    using success_path_wraps_result [where post = node_echo and req = full_request
        and s = new_service
        and response = "\<lparr>result = echo ''sendtoaddress'' [JStr ''t1abc'', JNum (1 / 1000), JStr ''''],
                         error = None, response_id = 1\<rparr>"]
    by (simp add: eval_simps)
  have h8: "ZCashController_validateAddress node_echo full_request new_service =
       (Json 200 (JObj [(''success'', JBool True),
                        (''data'', echo ''validateaddress'' [JStr ''t1abc''])]),
        \<lparr>requestId = 1,
         posted = [\<lparr>jsonrpc = ''2.0'', id' = 1, method' = ''validateaddress'',
                    params = [JStr ''t1abc'']\<rparr>]\<rparr>)"
    using success_path_wraps_result [where post = node_echo and req = full_request
        and s = new_service
        and response = "\<lparr>result = echo ''validateaddress'' [JStr ''t1abc''],
                         error = None, response_id = 1\<rparr>"]
    by (simp add: eval_simps)
  have h9: "ZCashController_getBlock node_echo full_request new_service =
       (Json 200 (JObj [(''success'', JBool True),
                        (''data'', echo ''getblock'' [JStr ''00ff'', JNum 1])]),
        \<lparr>requestId = 1,
         posted = [\<lparr>jsonrpc = ''2.0'', id' = 1, method' = ''getblock'',
                    params = [JStr ''00ff'', JNum 1]\<rparr>]\<rparr>)"
    using success_path_wraps_result [where post = node_echo and req = full_request
        and s = new_service
        and response = "\<lparr>result = echo ''getblock'' [JStr ''00ff'', JNum 1],
                         error = None, response_id = 1\<rparr>"]
    by (simp add: eval_simps)
  have h10: "ZCashController_getBlockCount node_echo full_request new_service =
       (Json 200 (JObj [(''success'', JBool True),
                        (''data'', JObj
                      [(''blockCount'', echo ''getblockcount'' [])])]),
        \<lparr>requestId = 1,
         posted = [\<lparr>jsonrpc = ''2.0'', id' = 1, method' = ''getblockcount'',
                    params = []\<rparr>]\<rparr>)"
    using success_path_wraps_result [where post = node_echo and req = full_request
        and s = new_service
        and response = "\<lparr>result = echo ''getblockcount'' [],
                         error = None, response_id = 1\<rparr>"]
    by (simp add: eval_simps)
  have h11: "ZCashController_getBlockHash node_echo full_request new_service =
       (Json 200 (JObj [(''success'', JBool True),
                        (''data'', JObj
                      [(''height'', JNum 12),
                       (''blockhash'', echo ''getblockhash'' [JNum 12])])]),
        \<lparr>requestId = 1,
         posted = [\<lparr>jsonrpc = ''2.0'', id' = 1, method' = ''getblockhash'',
                    params = [JNum 12]\<rparr>]\<rparr>)"
    using success_path_wraps_result [where post = node_echo and req = full_request
        and s = new_service
        and response = "\<lparr>result = echo ''getblockhash'' [JNum 12],
                         error = None, response_id = 1\<rparr>"]
    by (simp add: eval_simps)
  have h12: "ZCashController_getNetworkInfo node_echo full_request new_service =
       (Json 200 (JObj [(''success'', JBool True),
                        (''data'', echo ''getnetworkinfo'' [])]),
        \<lparr>requestId = 1,
         posted = [\<lparr>jsonrpc = ''2.0'', id' = 1, method' = ''getnetworkinfo'',
                    params = []\<rparr>]\<rparr>)"
    using success_path_wraps_result [where post = node_echo and req = full_request
        and s = new_service
        and response = "\<lparr>result = echo ''getnetworkinfo'' [],
                         error = None, response_id = 1\<rparr>"]
    by (simp add: eval_simps)
  have h13: "ZCashController_getMiningInfo node_echo full_request new_service =
       (Json 200 (JObj [(''success'', JBool True),
                        (''data'', echo ''getmininginfo'' [])]),
        \<lparr>requestId = 1,
         posted = [\<lparr>jsonrpc = ''2.0'', id' = 1, method' = ''getmininginfo'',
                    params = []\<rparr>]\<rparr>)"
    using success_path_wraps_result [where post = node_echo and req = full_request
        and s = new_service
        and response = "\<lparr>result = echo ''getmininginfo'' [],
                         error = None, response_id = 1\<rparr>"]
    by (simp add: eval_simps)
  have h14: "ZCashController_listUnspent node_echo full_request new_service =
       (Json 200 (JObj [(''success'', JBool True),
                        (''data'', echo ''listunspent'' [JNum 1, JNum 9999999])]),
        \<lparr>requestId = 1,
         posted = [\<lparr>jsonrpc = ''2.0'', id' = 1, method' = ''listunspent'',
                    params = [JNum 1, JNum 9999999]\<rparr>]\<rparr>)"
    using success_path_wraps_result [where post = node_echo and req = full_request
        and s = new_service
        and response = "\<lparr>result = echo ''listunspent'' [JNum 1, JNum 9999999],
                         error = None, response_id = 1\<rparr>"]
    by (simp add: eval_simps)
  have h15: "ZCashController_getRawTransaction node_echo full_request new_service =
       (Json 200 (JObj [(''success'', JBool True),
                        (''data'', echo ''getrawtransaction'' [JStr ''ab12'', JNum 0])]),
        \<lparr>requestId = 1,
         posted = [\<lparr>jsonrpc = ''2.0'', id' = 1, method' = ''getrawtransaction'',
                    params = [JStr ''ab12'', JNum 0]\<rparr>]\<rparr>)"
    using success_path_wraps_result [where post = node_echo and req = full_request
        and s = new_service
        and response = "\<lparr>result = echo ''getrawtransaction'' [JStr ''ab12'', JNum 0],
                         error = None, response_id = 1\<rparr>"]
    by (simp add: eval_simps)
  have h16: "ZCashController_estimateFee node_echo full_request new_service =
       (Json 200 (JObj [(''success'', JBool True),
                        (''data'', JObj
                      [(''fee'', echo ''estimatefee'' [JNum 6]),
                       (''nblocks'', JNum 6)])]),
        \<lparr>requestId = 1,
         posted = [\<lparr>jsonrpc = ''2.0'', id' = 1, method' = ''estimatefee'',
                    params = [JNum 6]\<rparr>]\<rparr>)"
    using success_path_wraps_result [where post = node_echo and req = full_request
        and s = new_service
        and response = "\<lparr>result = echo ''estimatefee'' [JNum 6],
                         error = None, response_id = 1\<rparr>"]
    by (simp add: eval_simps)
  have h17: "ZCashController_getConnectionCount node_echo full_request new_service =
       (Json 200 (JObj [(''success'', JBool True),
                        (''data'', JObj
                      [(''connections'', echo ''getconnectioncount'' [])])]),
        \<lparr>requestId = 1,
         posted = [\<lparr>jsonrpc = ''2.0'', id' = 1, method' = ''getconnectioncount'',
                    params = []\<rparr>]\<rparr>)"
    using success_path_wraps_result [where post = node_echo and req = full_request
        and s = new_service
        and response = "\<lparr>result = echo ''getconnectioncount'' [],
                         error = None, response_id = 1\<rparr>"]
    by (simp add: eval_simps)
  from h1 h2 h3 h4 h5 h6 h7 h8 h9 h10 h11 h12 h13 h14 h15 h16 h17
  show ?thesis by (intro conjI)
qed

subsection \<open>Optional numeric parameters\<close>

text \<open>
  \<^verbatim>\<open>parseInt(x) || d\<close> is \<open>d\<close> in three cases: the parameter is absent (the argument is
  \<^verbatim>\<open>undefined\<close>, which reads as the string \<^verbatim>\<open>undefined\<close> and parses to NaN), the
  value parses to NaN, and the value parses to zero.
\<close>

lemma or_default_absent: "q = None \<Longrightarrow> or_default (parseInt q) d = Finite d"
  by (simp add: parseInt_undefined or_default_def)

lemma or_default_NaN: "parseInt q = NaN \<Longrightarrow> or_default (parseInt q) d = Finite d"
  by (simp add: or_default_def)

lemma or_default_zero: "parseInt q = Finite 0 \<Longrightarrow> or_default (parseInt q) d = Finite d"
  by (simp add: or_default_def)

text \<open>What each handler does once the default has replaced one of its parameters.\<close>

lemma getBalance_minConfirmations_default:
  assumes "or_default (parseInt (query req ''minConfirmations'')) 1 = Finite 1"
  shows "ZCashController_getBalance post req s =
     respond (\<lambda>balance. JObj [(''balance'', balance), (''minConfirmations'', JNum 1)])
       (rpcCall post ''getbalance'' [JStr ''*'', JNum 1] s)"
  using assms by (simp add: ZCashController_getBalance_def ZCashService_getBalance_def)

lemma getBalance_minConfirmations_default_posted:
  assumes "or_default (parseInt (query req ''minConfirmations'')) 1 = Finite 1"
  shows "posted (snd (ZCashController_getBalance post req s)) =
     posted s @ [envelope s ''getbalance'' [JStr ''*'', JNum 1]]"
  using assms by (simp add: getBalance_minConfirmations_default respond_state rpcCall_envelope)

lemma listUnspent_minConfirmations_default:
  assumes "or_default (parseInt (query req ''minConfirmations'')) 1 = Finite 1"
  shows "ZCashController_listUnspent post req s =
     respond (\<lambda>unspent. unspent)
       (rpcCall post ''listunspent''
          [JNum 1,
           num_json (or_default (parseInt (query req ''maxConfirmations'')) 9999999)] s)"
  using assms by (simp add: ZCashController_listUnspent_def ZCashService_listUnspent_def)

lemma listUnspent_minConfirmations_default_posted:
  assumes "or_default (parseInt (query req ''minConfirmations'')) 1 = Finite 1"
  shows "posted (snd (ZCashController_listUnspent post req s)) =
     posted s @ [envelope s ''listunspent''
                 [JNum 1,
                  num_json (or_default (parseInt (query req ''maxConfirmations'')) 9999999)]]"
  using assms by (simp add: listUnspent_minConfirmations_default respond_state rpcCall_envelope)

lemma listUnspent_maxConfirmations_default:
  assumes "or_default (parseInt (query req ''maxConfirmations'')) 9999999 = Finite 9999999"
  shows "ZCashController_listUnspent post req s =
     respond (\<lambda>unspent. unspent)
       (rpcCall post ''listunspent''
          [num_json (or_default (parseInt (query req ''minConfirmations'')) 1),
           JNum 9999999] s)"
  using assms by (simp add: ZCashController_listUnspent_def ZCashService_listUnspent_def)

lemma listUnspent_maxConfirmations_default_posted:
  assumes "or_default (parseInt (query req ''maxConfirmations'')) 9999999 = Finite 9999999"
  shows "posted (snd (ZCashController_listUnspent post req s)) =
     posted s @ [envelope s ''listunspent''
                 [num_json (or_default (parseInt (query req ''minConfirmations'')) 1),
                  JNum 9999999]]"
  using assms by (simp add: listUnspent_maxConfirmations_default respond_state rpcCall_envelope)

lemma listTransactions_count_default:
  assumes "or_default (parseInt (query req ''count'')) 10 = Finite 10"
  shows "ZCashController_listTransactions post req s =
     respond (\<lambda>transactions. transactions)
       (rpcCall post ''listtransactions''
          [JStr ''*'',
           JNum 10,
           num_json (or_default (parseInt (query req ''skip'')) 0)] s)"
  using assms by (simp add: ZCashController_listTransactions_def ZCashService_listTransactions_def)

lemma listTransactions_count_default_posted:
  assumes "or_default (parseInt (query req ''count'')) 10 = Finite 10"
  shows "posted (snd (ZCashController_listTransactions post req s)) =
     posted s @ [envelope s ''listtransactions''
                 [JStr ''*'',
                  JNum 10,
                  num_json (or_default (parseInt (query req ''skip'')) 0)]]"
  using assms by (simp add: listTransactions_count_default respond_state rpcCall_envelope)

lemma listTransactions_skip_default:
  assumes "or_default (parseInt (query req ''skip'')) 0 = Finite 0"
  shows "ZCashController_listTransactions post req s =
     respond (\<lambda>transactions. transactions)
       (rpcCall post ''listtransactions''
          [JStr ''*'',
           num_json (or_default (parseInt (query req ''count'')) 10),
           JNum 0] s)"
  using assms by (simp add: ZCashController_listTransactions_def ZCashService_listTransactions_def)

lemma listTransactions_skip_default_posted:
  assumes "or_default (parseInt (query req ''skip'')) 0 = Finite 0"
  shows "posted (snd (ZCashController_listTransactions post req s)) =
     posted s @ [envelope s ''listtransactions''
                 [JStr ''*'',
                  num_json (or_default (parseInt (query req ''count'')) 10),
                  JNum 0]]"
  using assms by (simp add: listTransactions_skip_default respond_state rpcCall_envelope)

lemma estimateFee_nblocks_default:
  assumes "or_default (parseInt (query req ''nblocks'')) 6 = Finite 6"
  shows "ZCashController_estimateFee post req s =
     respond (\<lambda>fee. JObj [(''fee'', fee), (''nblocks'', JNum 6)])
       (rpcCall post ''estimatefee'' [JNum 6] s)"
  using assms by (simp add: ZCashController_estimateFee_def ZCashService_estimateFee_def)

lemma estimateFee_nblocks_default_posted:
  assumes "or_default (parseInt (query req ''nblocks'')) 6 = Finite 6"
  shows "posted (snd (ZCashController_estimateFee post req s)) =
     posted s @ [envelope s ''estimatefee'' [JNum 6]]"
  using assms by (simp add: estimateFee_nblocks_default respond_state rpcCall_envelope)

lemma getBlock_verbosity_default:
  assumes "or_default (parseInt (query req ''verbosity'')) 1 = Finite 1"
    and "truthy_str (path_params req ''blockhash'')"
  shows "ZCashController_getBlock post req s =
     respond (\<lambda>block. block)
       (rpcCall post ''getblock'' [JStr (the (path_params req ''blockhash'')), JNum 1] s)"
  using assms by (simp add: ZCashController_getBlock_def ZCashService_getBlock_def)

lemma getBlock_verbosity_default_posted:
  assumes "or_default (parseInt (query req ''verbosity'')) 1 = Finite 1"
    and "truthy_str (path_params req ''blockhash'')"
  shows "posted (snd (ZCashController_getBlock post req s)) =
     posted s @ [envelope s ''getblock''
                 [JStr (the (path_params req ''blockhash'')), JNum 1]]"
  using assms by (simp add: getBlock_verbosity_default respond_state rpcCall_envelope)

lemma parseInt_defaults:
  "parseInt (Some ''1'') = Finite 1" "parseInt (Some ''9999999'') = Finite 9999999"
  "parseInt (Some ''10'') = Finite 10" "parseInt (Some ''0'') = Finite 0"
  "parseInt (Some ''6'') = Finite 6"
  by code_simp+

lemma getBalance_minConfirmations_as_if_supplied:
  "query req ''minConfirmations'' = None \<Longrightarrow>
   ZCashController_getBalance post req s =
     ZCashController_getBalance post (with_query req ''minConfirmations'' ''1'') s"
  by (simp add: ZCashController_getBalance_def with_query_def or_default_def parseInt_undefined
      parseInt_defaults)

lemma listUnspent_minConfirmations_as_if_supplied:
  "query req ''minConfirmations'' = None \<Longrightarrow>
   ZCashController_listUnspent post req s =
     ZCashController_listUnspent post (with_query req ''minConfirmations'' ''1'') s"
  by (simp add: ZCashController_listUnspent_def with_query_def or_default_def parseInt_undefined
      parseInt_defaults)

lemma listUnspent_maxConfirmations_as_if_supplied:
  "query req ''maxConfirmations'' = None \<Longrightarrow>
   ZCashController_listUnspent post req s =
     ZCashController_listUnspent post (with_query req ''maxConfirmations'' ''9999999'') s"
  by (simp add: ZCashController_listUnspent_def with_query_def or_default_def parseInt_undefined
      parseInt_defaults)

lemma listTransactions_count_as_if_supplied:
  "query req ''count'' = None \<Longrightarrow>
   ZCashController_listTransactions post req s =
     ZCashController_listTransactions post (with_query req ''count'' ''10'') s"
  by (simp add: ZCashController_listTransactions_def with_query_def or_default_def parseInt_undefined
      parseInt_defaults)

lemma listTransactions_skip_as_if_supplied:
  "query req ''skip'' = None \<Longrightarrow>
   ZCashController_listTransactions post req s =
     ZCashController_listTransactions post (with_query req ''skip'' ''0'') s"
  by (simp add: ZCashController_listTransactions_def with_query_def or_default_def parseInt_undefined
      parseInt_defaults)

lemma estimateFee_nblocks_as_if_supplied:
  "query req ''nblocks'' = None \<Longrightarrow>
   ZCashController_estimateFee post req s =
     ZCashController_estimateFee post (with_query req ''nblocks'' ''6'') s"
  by (simp add: ZCashController_estimateFee_def with_query_def or_default_def parseInt_undefined
      parseInt_defaults)

lemma getBlock_verbosity_as_if_supplied:
  "query req ''verbosity'' = None \<Longrightarrow>
   ZCashController_getBlock post req s =
     ZCashController_getBlock post (with_query req ''verbosity'' ''1'') s"
  by (simp add: ZCashController_getBlock_def with_query_def or_default_def parseInt_undefined
      parseInt_defaults)

text \<open>
  C4. On every endpoint with an optional numeric query parameter, a request without the
  parameter gets the same reply, and leaves the service in the same state, as the request
  with the documented default added: 1 for \<^verbatim>\<open>minConfirmations\<close> (balance, unspent),
  9999999 for \<^verbatim>\<open>maxConfirmations\<close>, 10 for \<^verbatim>\<open>count\<close>, 0 for \<^verbatim>\<open>skip\<close>, 6 for
  \<^verbatim>\<open>nblocks\<close>, 1 for \<^verbatim>\<open>verbosity\<close>. Spelled out: the handler calls the node with
  the default in the parameter's position, and the two handlers that echo their parameter,
  balance and fee estimate, put the default in the data of the reply.
\<close>

theorem omitted_parameter_defaults:
  "(query req ''minConfirmations'' = None \<longrightarrow>
      ZCashController_getBalance post req s =
        ZCashController_getBalance post (with_query req ''minConfirmations'' ''1'') s) \<and>
   (query req ''minConfirmations'' = None \<longrightarrow>
      ZCashController_listUnspent post req s =
        ZCashController_listUnspent post (with_query req ''minConfirmations'' ''1'') s) \<and>
   (query req ''maxConfirmations'' = None \<longrightarrow>
      ZCashController_listUnspent post req s =
        ZCashController_listUnspent post (with_query req ''maxConfirmations'' ''9999999'') s) \<and>
   (query req ''count'' = None \<longrightarrow>
      ZCashController_listTransactions post req s =
        ZCashController_listTransactions post (with_query req ''count'' ''10'') s) \<and>
   (query req ''skip'' = None \<longrightarrow>
      ZCashController_listTransactions post req s =
        ZCashController_listTransactions post (with_query req ''skip'' ''0'') s) \<and>
   (query req ''nblocks'' = None \<longrightarrow>
      ZCashController_estimateFee post req s =
        ZCashController_estimateFee post (with_query req ''nblocks'' ''6'') s) \<and>
   (query req ''verbosity'' = None \<longrightarrow>
      ZCashController_getBlock post req s =
        ZCashController_getBlock post (with_query req ''verbosity'' ''1'') s) \<and>
   (query req ''minConfirmations'' = None \<longrightarrow>
      ZCashController_getBalance post req s =
        respond (\<lambda>balance. JObj [(''balance'', balance), (''minConfirmations'', JNum 1)])
          (rpcCall post ''getbalance'' [JStr ''*'', JNum 1] s)) \<and>
   (query req ''minConfirmations'' = None \<longrightarrow>
      ZCashController_listUnspent post req s =
        respond (\<lambda>unspent. unspent)
          (rpcCall post ''listunspent''
             [JNum 1,
              num_json (or_default (parseInt (query req ''maxConfirmations'')) 9999999)] s)) \<and>
   (query req ''maxConfirmations'' = None \<longrightarrow>
      ZCashController_listUnspent post req s =
        respond (\<lambda>unspent. unspent)
          (rpcCall post ''listunspent''
             [num_json (or_default (parseInt (query req ''minConfirmations'')) 1),
              JNum 9999999] s)) \<and>
   (query req ''count'' = None \<longrightarrow>
      ZCashController_listTransactions post req s =
        respond (\<lambda>transactions. transactions)
          (rpcCall post ''listtransactions''
             [JStr ''*'',
              JNum 10,
              num_json (or_default (parseInt (query req ''skip'')) 0)] s)) \<and>
   (query req ''skip'' = None \<longrightarrow>
      ZCashController_listTransactions post req s =
        respond (\<lambda>transactions. transactions)
          (rpcCall post ''listtransactions''
             [JStr ''*'',
              num_json (or_default (parseInt (query req ''count'')) 10),
              JNum 0] s)) \<and>
   (query req ''nblocks'' = None \<longrightarrow>
      ZCashController_estimateFee post req s =
        respond (\<lambda>fee. JObj [(''fee'', fee), (''nblocks'', JNum 6)])
          (rpcCall post ''estimatefee'' [JNum 6] s)) \<and>
   (query req ''verbosity'' = None \<and> truthy_str (path_params req ''blockhash'') \<longrightarrow>
      ZCashController_getBlock post req s =
        respond (\<lambda>block. block)
          (rpcCall post ''getblock''
             [JStr (the (path_params req ''blockhash'')), JNum 1] s))"
  by (intro conjI impI
      getBalance_minConfirmations_as_if_supplied
      listUnspent_minConfirmations_as_if_supplied
      listUnspent_maxConfirmations_as_if_supplied
      listTransactions_count_as_if_supplied
      listTransactions_skip_as_if_supplied
      estimateFee_nblocks_as_if_supplied
      getBlock_verbosity_as_if_supplied
      getBalance_minConfirmations_default
      listUnspent_minConfirmations_default
      listUnspent_maxConfirmations_default
      listTransactions_count_default
      listTransactions_skip_default
      estimateFee_nblocks_default
      getBlock_verbosity_default
      or_default_absent) simp_all

theorem omitted_parameter_defaults_witness:
  "truthy_str (path_params full_request ''blockhash'') \<and>
   query full_request ''minConfirmations'' = None \<and>
   query full_request ''maxConfirmations'' = None \<and>
   query full_request ''count'' = None \<and>
   query full_request ''skip'' = None \<and>
   query full_request ''nblocks'' = None \<and>
   query full_request ''verbosity'' = None \<and>
   ZCashController_getBalance node_echo full_request new_service =
     ZCashController_getBalance node_echo (with_query full_request ''minConfirmations'' ''1'')
       new_service \<and>
   ZCashController_listUnspent node_echo full_request new_service =
     ZCashController_listUnspent node_echo (with_query full_request ''minConfirmations'' ''1'')
       new_service \<and>
   ZCashController_listUnspent node_echo full_request new_service =
     ZCashController_listUnspent node_echo (with_query full_request ''maxConfirmations'' ''9999999'')
       new_service \<and>
   ZCashController_listTransactions node_echo full_request new_service =
     ZCashController_listTransactions node_echo (with_query full_request ''count'' ''10'')
       new_service \<and>
   ZCashController_listTransactions node_echo full_request new_service =
     ZCashController_listTransactions node_echo (with_query full_request ''skip'' ''0'')
       new_service \<and>
   ZCashController_estimateFee node_echo full_request new_service =
     ZCashController_estimateFee node_echo (with_query full_request ''nblocks'' ''6'')
       new_service \<and>
   ZCashController_getBlock node_echo full_request new_service =
     ZCashController_getBlock node_echo (with_query full_request ''verbosity'' ''1'')
       new_service \<and>
   fst (ZCashController_getBalance node_echo full_request new_service) =
     Json 200 (JObj [(''success'', JBool True),
                     (''data'', JObj [(''balance'', echo ''getbalance'' [JStr ''*'', JNum 1]),
                                      (''minConfirmations'', JNum 1)])]) \<and>
   fst (ZCashController_estimateFee node_echo full_request new_service) =
     Json 200 (JObj [(''success'', JBool True),
                     (''data'', JObj [(''fee'', echo ''estimatefee'' [JNum 6]),
                                      (''nblocks'', JNum 6)])])"
proof -
  note t = omitted_parameter_defaults [of full_request node_echo new_service]
  have absent:
    "query full_request ''minConfirmations'' = None"
    "query full_request ''maxConfirmations'' = None"
    "query full_request ''count'' = None"
    "query full_request ''skip'' = None"
    "query full_request ''nblocks'' = None"
    "query full_request ''verbosity'' = None"
    "truthy_str (path_params full_request ''blockhash'')"
    by (simp_all add: full_request_def truthy_str_def)
  have as_if:
    "ZCashController_getBalance node_echo full_request new_service =
     ZCashController_getBalance node_echo (with_query full_request ''minConfirmations'' ''1'')
       new_service \<and>
     ZCashController_listUnspent node_echo full_request new_service =
     ZCashController_listUnspent node_echo (with_query full_request ''minConfirmations'' ''1'')
       new_service \<and>
     ZCashController_listUnspent node_echo full_request new_service =
     ZCashController_listUnspent node_echo (with_query full_request ''maxConfirmations'' ''9999999'')
       new_service \<and>
     ZCashController_listTransactions node_echo full_request new_service =
     ZCashController_listTransactions node_echo (with_query full_request ''count'' ''10'')
       new_service \<and>
     ZCashController_listTransactions node_echo full_request new_service =
     ZCashController_listTransactions node_echo (with_query full_request ''skip'' ''0'')
       new_service \<and>
     ZCashController_estimateFee node_echo full_request new_service =
     ZCashController_estimateFee node_echo (with_query full_request ''nblocks'' ''6'')
       new_service \<and>
     ZCashController_getBlock node_echo full_request new_service =
     ZCashController_getBlock node_echo (with_query full_request ''verbosity'' ''1'')
       new_service"
    using t absent by blast
  have balance:
    "ZCashController_getBalance node_echo full_request new_service =
       respond (\<lambda>balance. JObj [(''balance'', balance), (''minConfirmations'', JNum 1)])
         (rpcCall node_echo ''getbalance'' [JStr ''*'', JNum 1] new_service)"
    using t absent by blast
  have fee:
    "ZCashController_estimateFee node_echo full_request new_service =
       respond (\<lambda>fee. JObj [(''fee'', fee), (''nblocks'', JNum 6)])
         (rpcCall node_echo ''estimatefee'' [JNum 6] new_service)"
    using t absent by blast
  have echoed:
    "fst (respond (\<lambda>balance. JObj [(''balance'', balance), (''minConfirmations'', JNum 1)])
            (rpcCall node_echo ''getbalance'' [JStr ''*'', JNum 1] new_service)) =
       Json 200 (JObj [(''success'', JBool True),
                       (''data'', JObj [(''balance'', echo ''getbalance'' [JStr ''*'', JNum 1]),
                                        (''minConfirmations'', JNum 1)])])"
    "fst (respond (\<lambda>fee. JObj [(''fee'', fee), (''nblocks'', JNum 6)])
            (rpcCall node_echo ''estimatefee'' [JNum 6] new_service)) =
       Json 200 (JObj [(''success'', JBool True),
                       (''data'', JObj [(''fee'', echo ''estimatefee'' [JNum 6]),
                                        (''nblocks'', JNum 6)])])"
    by (simp_all add: respond_reply rpcCall_result rpcCall_try_def node_echo_def
        success_body_def)
  from absent as_if echoed show ?thesis
    unfolding balance fee by blast
qed

text \<open>
  C5. A request that supplies, for an optional numeric query parameter, a value that
  \<^verbatim>\<open>parseInt\<close> does not parse is not rejected: the handler goes on with the documented
  default in the parameter's place and posts its request to the node (the block handler
  when its block hash is there, as the route makes sure).
\<close>

theorem unparsable_parameter_defaults:
  "(query req ''minConfirmations'' = Some v \<and> parseInt (Some v) = NaN \<longrightarrow>
      ZCashController_getBalance post req s =
        respond (\<lambda>balance. JObj [(''balance'', balance), (''minConfirmations'', JNum 1)])
          (rpcCall post ''getbalance'' [JStr ''*'', JNum 1] s) \<and>
      posted (snd (ZCashController_getBalance post req s)) =
        posted s @ [envelope s ''getbalance'' [JStr ''*'', JNum 1]]) \<and>
   (query req ''minConfirmations'' = Some v \<and> parseInt (Some v) = NaN \<longrightarrow>
      ZCashController_listUnspent post req s =
        respond (\<lambda>unspent. unspent)
          (rpcCall post ''listunspent''
             [JNum 1,
              num_json (or_default (parseInt (query req ''maxConfirmations'')) 9999999)] s) \<and>
      posted (snd (ZCashController_listUnspent post req s)) =
        posted s @ [envelope s ''listunspent''
                    [JNum 1,
                     num_json (or_default (parseInt (query req ''maxConfirmations'')) 9999999)]]) \<and>
   (query req ''maxConfirmations'' = Some v \<and> parseInt (Some v) = NaN \<longrightarrow>
      ZCashController_listUnspent post req s =
        respond (\<lambda>unspent. unspent)
          (rpcCall post ''listunspent''
             [num_json (or_default (parseInt (query req ''minConfirmations'')) 1),
              JNum 9999999] s) \<and>
      posted (snd (ZCashController_listUnspent post req s)) =
        posted s @ [envelope s ''listunspent''
                    [num_json (or_default (parseInt (query req ''minConfirmations'')) 1),
                     JNum 9999999]]) \<and>
   (query req ''count'' = Some v \<and> parseInt (Some v) = NaN \<longrightarrow>
      ZCashController_listTransactions post req s =
        respond (\<lambda>transactions. transactions)
          (rpcCall post ''listtransactions''
             [JStr ''*'',
              JNum 10,
              num_json (or_default (parseInt (query req ''skip'')) 0)] s) \<and>
      posted (snd (ZCashController_listTransactions post req s)) =
        posted s @ [envelope s ''listtransactions''
                    [JStr ''*'',
                     JNum 10,
                     num_json (or_default (parseInt (query req ''skip'')) 0)]]) \<and>
   (query req ''skip'' = Some v \<and> parseInt (Some v) = NaN \<longrightarrow>
      ZCashController_listTransactions post req s =
        respond (\<lambda>transactions. transactions)
          (rpcCall post ''listtransactions''
             [JStr ''*'',
              num_json (or_default (parseInt (query req ''count'')) 10),
              JNum 0] s) \<and>
      posted (snd (ZCashController_listTransactions post req s)) =
        posted s @ [envelope s ''listtransactions''
                    [JStr ''*'',
                     num_json (or_default (parseInt (query req ''count'')) 10),
                     JNum 0]]) \<and>
   (query req ''nblocks'' = Some v \<and> parseInt (Some v) = NaN \<longrightarrow>
      ZCashController_estimateFee post req s =
        respond (\<lambda>fee. JObj [(''fee'', fee), (''nblocks'', JNum 6)])
          (rpcCall post ''estimatefee'' [JNum 6] s) \<and>
      posted (snd (ZCashController_estimateFee post req s)) =
        posted s @ [envelope s ''estimatefee'' [JNum 6]]) \<and>
   (query req ''verbosity'' = Some v \<and> parseInt (Some v) = NaN \<and>
    truthy_str (path_params req ''blockhash'') \<longrightarrow>
      ZCashController_getBlock post req s =
        respond (\<lambda>block. block)
          (rpcCall post ''getblock''
             [JStr (the (path_params req ''blockhash'')), JNum 1] s) \<and>
      posted (snd (ZCashController_getBlock post req s)) =
        posted s @ [envelope s ''getblock''
                    [JStr (the (path_params req ''blockhash'')), JNum 1]])"
proof -
  have d: "or_default (parseInt (query req k)) d = Finite d"
    if "query req k = Some v \<and> parseInt (Some v) = NaN" for k and d :: int
    using that by (simp add: or_default_def)
  show ?thesis
    by (intro conjI impI
        getBalance_minConfirmations_default getBalance_minConfirmations_default_posted
        listUnspent_minConfirmations_default listUnspent_minConfirmations_default_posted
        listUnspent_maxConfirmations_default listUnspent_maxConfirmations_default_posted
        listTransactions_count_default listTransactions_count_default_posted
        listTransactions_skip_default listTransactions_skip_default_posted
        estimateFee_nblocks_default estimateFee_nblocks_default_posted
        getBlock_verbosity_default getBlock_verbosity_default_posted d) simp_all
qed

theorem unparsable_parameter_defaults_witness:
  "query (all_numeric ''abc'') ''minConfirmations'' = Some ''abc'' \<and>
   query (all_numeric ''abc'') ''maxConfirmations'' = Some ''abc'' \<and>
   query (all_numeric ''abc'') ''count'' = Some ''abc'' \<and>
   query (all_numeric ''abc'') ''skip'' = Some ''abc'' \<and>
   query (all_numeric ''abc'') ''nblocks'' = Some ''abc'' \<and>
   query (all_numeric ''abc'') ''verbosity'' = Some ''abc'' \<and>
   parseInt (Some ''abc'') = NaN \<and>
   truthy_str (path_params (all_numeric ''abc'') ''blockhash'') \<and>
   posted (snd (ZCashController_getBalance node_echo (all_numeric ''abc'') new_service)) =
     [envelope new_service ''getbalance'' [JStr ''*'', JNum 1]] \<and>
   posted (snd (ZCashController_listUnspent node_echo (all_numeric ''abc'') new_service)) =
     [envelope new_service ''listunspent'' [JNum 1, JNum 9999999]] \<and>
   posted (snd (ZCashController_listTransactions node_echo (all_numeric ''abc'') new_service)) =
     [envelope new_service ''listtransactions'' [JStr ''*'', JNum 10, JNum 0]] \<and>
   posted (snd (ZCashController_estimateFee node_echo (all_numeric ''abc'') new_service)) =
     [envelope new_service ''estimatefee'' [JNum 6]] \<and>
   posted (snd (ZCashController_getBlock node_echo (all_numeric ''abc'') new_service)) =
     [envelope new_service ''getblock'' [JStr ''00ff'', JNum 1]] \<and>
   fst (ZCashController_getBalance node_echo (all_numeric ''abc'') new_service) =
     Json 200 (JObj [(''success'', JBool True),
                     (''data'', JObj [(''balance'', echo ''getbalance'' [JStr ''*'', JNum 1]),
                                      (''minConfirmations'', JNum 1)])])"
  using unparsable_parameter_defaults [of "all_numeric ''abc''" "''abc''" node_echo new_service]
  by (simp add: all_numeric_def numeric_params_def full_request_def new_service_def
      parseInt_abc truthy_str_def or_default_def node_echo_def respond_def rpcCall_def
      rpcCall_try_def success_body_def js_incr_def envelope_def)

text \<open>
  C8. The default is chosen with \<^verbatim>\<open>parseInt(x) || d\<close>, which tests the parsed number and
  not the presence of the parameter. So a value that is present and parses to 0 is not used:
  \<^verbatim>\<open>minConfirmations\<close> becomes 1 (balance, in the call and in the echoed data; unspent),
  \<^verbatim>\<open>maxConfirmations\<close> 9999999, \<^verbatim>\<open>count\<close> 10, \<^verbatim>\<open>nblocks\<close> 6 (in the call and in
  the echoed data) and \<^verbatim>\<open>verbosity\<close> 1. (For \<^verbatim>\<open>skip\<close> the default is 0 itself.)
\<close>

theorem zero_parameter_defaults:
  "(query req ''minConfirmations'' = Some v \<and> parseInt (Some v) = Finite 0 \<longrightarrow>
      ZCashController_getBalance post req s =
        respond (\<lambda>balance. JObj [(''balance'', balance), (''minConfirmations'', JNum 1)])
          (rpcCall post ''getbalance'' [JStr ''*'', JNum 1] s) \<and>
      posted (snd (ZCashController_getBalance post req s)) =
        posted s @ [envelope s ''getbalance'' [JStr ''*'', JNum 1]]) \<and>
   (query req ''minConfirmations'' = Some v \<and> parseInt (Some v) = Finite 0 \<longrightarrow>
      ZCashController_listUnspent post req s =
        respond (\<lambda>unspent. unspent)
          (rpcCall post ''listunspent''
             [JNum 1,
              num_json (or_default (parseInt (query req ''maxConfirmations'')) 9999999)] s) \<and>
      posted (snd (ZCashController_listUnspent post req s)) =
        posted s @ [envelope s ''listunspent''
                    [JNum 1,
                     num_json (or_default (parseInt (query req ''maxConfirmations'')) 9999999)]]) \<and>
   (query req ''maxConfirmations'' = Some v \<and> parseInt (Some v) = Finite 0 \<longrightarrow>
      ZCashController_listUnspent post req s =
        respond (\<lambda>unspent. unspent)
          (rpcCall post ''listunspent''
             [num_json (or_default (parseInt (query req ''minConfirmations'')) 1),
              JNum 9999999] s) \<and>
      posted (snd (ZCashController_listUnspent post req s)) =
        posted s @ [envelope s ''listunspent''
                    [num_json (or_default (parseInt (query req ''minConfirmations'')) 1),
                     JNum 9999999]]) \<and>
   (query req ''count'' = Some v \<and> parseInt (Some v) = Finite 0 \<longrightarrow>
      ZCashController_listTransactions post req s =
        respond (\<lambda>transactions. transactions)
          (rpcCall post ''listtransactions''
             [JStr ''*'',
              JNum 10,
              num_json (or_default (parseInt (query req ''skip'')) 0)] s) \<and>
      posted (snd (ZCashController_listTransactions post req s)) =
        posted s @ [envelope s ''listtransactions''
                    [JStr ''*'',
                     JNum 10,
                     num_json (or_default (parseInt (query req ''skip'')) 0)]]) \<and>
   (query req ''nblocks'' = Some v \<and> parseInt (Some v) = Finite 0 \<longrightarrow>
      ZCashController_estimateFee post req s =
        respond (\<lambda>fee. JObj [(''fee'', fee), (''nblocks'', JNum 6)])
          (rpcCall post ''estimatefee'' [JNum 6] s) \<and>
      posted (snd (ZCashController_estimateFee post req s)) =
        posted s @ [envelope s ''estimatefee'' [JNum 6]]) \<and>
   (query req ''verbosity'' = Some v \<and> parseInt (Some v) = Finite 0 \<and>
    truthy_str (path_params req ''blockhash'') \<longrightarrow>
      ZCashController_getBlock post req s =
        respond (\<lambda>block. block)
          (rpcCall post ''getblock''
             [JStr (the (path_params req ''blockhash'')), JNum 1] s) \<and>
      posted (snd (ZCashController_getBlock post req s)) =
        posted s @ [envelope s ''getblock''
                    [JStr (the (path_params req ''blockhash'')), JNum 1]])"
proof -
  have d: "or_default (parseInt (query req k)) d = Finite d"
    if "query req k = Some v \<and> parseInt (Some v) = Finite 0" for k and d :: int
    using that by (simp add: or_default_def)
  show ?thesis
    by (intro conjI impI
        getBalance_minConfirmations_default getBalance_minConfirmations_default_posted
        listUnspent_minConfirmations_default listUnspent_minConfirmations_default_posted
        listUnspent_maxConfirmations_default listUnspent_maxConfirmations_default_posted
        listTransactions_count_default listTransactions_count_default_posted
        estimateFee_nblocks_default estimateFee_nblocks_default_posted
        getBlock_verbosity_default getBlock_verbosity_default_posted d) simp_all
qed

theorem zero_parameter_defaults_witness:
  "query (all_numeric ''0'') ''minConfirmations'' = Some ''0'' \<and>
   query (all_numeric ''0'') ''maxConfirmations'' = Some ''0'' \<and>
   query (all_numeric ''0'') ''count'' = Some ''0'' \<and>
   query (all_numeric ''0'') ''nblocks'' = Some ''0'' \<and>
   query (all_numeric ''0'') ''verbosity'' = Some ''0'' \<and>
   parseInt (Some ''0'') = Finite 0 \<and>
   truthy_str (path_params (all_numeric ''0'') ''blockhash'') \<and>
   posted (snd (ZCashController_getBalance node_echo (all_numeric ''0'') new_service)) =
     [envelope new_service ''getbalance'' [JStr ''*'', JNum 1]] \<and>
   posted (snd (ZCashController_listUnspent node_echo (all_numeric ''0'') new_service)) =
     [envelope new_service ''listunspent'' [JNum 1, JNum 9999999]] \<and>
   posted (snd (ZCashController_listTransactions node_echo (all_numeric ''0'') new_service)) =
     [envelope new_service ''listtransactions'' [JStr ''*'', JNum 10, JNum 0]] \<and>
   posted (snd (ZCashController_estimateFee node_echo (all_numeric ''0'') new_service)) =
     [envelope new_service ''estimatefee'' [JNum 6]] \<and>
   posted (snd (ZCashController_getBlock node_echo (all_numeric ''0'') new_service)) =
     [envelope new_service ''getblock'' [JStr ''00ff'', JNum 1]] \<and>
   fst (ZCashController_getBalance node_echo (all_numeric ''0'') new_service) =
     Json 200 (JObj [(''success'', JBool True),
                     (''data'', JObj [(''balance'', echo ''getbalance'' [JStr ''*'', JNum 1]),
                                      (''minConfirmations'', JNum 1)])]) \<and>
   fst (ZCashController_estimateFee node_echo (all_numeric ''0'') new_service) =
     Json 200 (JObj [(''success'', JBool True),
                     (''data'', JObj [(''fee'', echo ''estimatefee'' [JNum 6]),
                                      (''nblocks'', JNum 6)])])"
  using zero_parameter_defaults [of "all_numeric ''0''" "''0''" node_echo new_service]
  by (simp add: all_numeric_def numeric_params_def full_request_def new_service_def
      parseInt_defaults truthy_str_def or_default_def node_echo_def respond_def rpcCall_def
      rpcCall_try_def success_body_def js_incr_def envelope_def)

end
